theory Spec2Isabelle
  imports Complex_Main "HOL-Library.Char_ord" "HOL-Library.List_Lexorder" "HOL-Library.Multiset"
begin

section \<open>JSON values\<close>

text \<open>
  The program's messages, tool calls and provider payloads are Python dictionaries,
  lists, strings, integers, booleans and \<open>None\<close>, as \<open>json.loads\<close> returns them.
  Strings are byte strings (the UTF-8 encoding of the Python \<open>str\<close>). A dictionary is an
  association list in insertion order with distinct keys. JSON numerals with a fraction
  or an exponent are Python floats; floating point is outside this development, so the
  value type has integers only.
\<close>

datatype json =
    JNull
  | JBool bool
  | JInt int
  | JStr string
  | JArr "json list"
  | JObj "(string \<times> json) list"

text \<open>\<open>d[k] = v\<close> on a dictionary: an existing key keeps its position.\<close>

fun dict_set :: "(string \<times> json) list \<Rightarrow> string \<Rightarrow> json \<Rightarrow> (string \<times> json) list" where
  "dict_set [] k v = [(k, v)]"
| "dict_set ((k', v') # kvs) k v =
     (if k' = k then (k, v) # kvs else (k', v') # dict_set kvs k v)"

subsection \<open>A reader for JSON text\<close>

text \<open>
  \<open>json_loads\<close> stands for \<open>json.loads\<close> on the texts used in the examples below; the
  program's functions take the reader as a parameter, and the general theorems hold for
  every reader. It is a one-pass scanner producing tokens followed by a stack parser over
  the tokens. \<open>None\<close> is the reader's exception (\<open>json.JSONDecodeError\<close>). It reads
  objects, arrays, strings with their escapes, integers, \<open>true\<close>, \<open>false\<close> and \<open>null\<close>;
  it rejects numerals with a fraction or an exponent, the literals \<open>NaN\<close> and
  \<open>Infinity\<close>, and \<open>\u\<close> escapes of surrogates, which Python accepts.
\<close>

datatype tok = TLBrace | TRBrace | TLBrack | TRBrack | TColon | TComma | TVal json

datatype lexmode =
    LDefault
  | LStr string
  | LEsc string
  | LUni string "nat list"
  | LNum bool string
  | LWord string

definition is_digit :: "char \<Rightarrow> bool" where
  "is_digit c = (c \<in> set ''0123456789'')"

definition is_lower :: "char \<Rightarrow> bool" where
  "is_lower c = (c \<in> set ''abcdefghijklmnopqrstuvwxyz'')"

definition is_json_ws :: "char \<Rightarrow> bool" where
  "is_json_ws c = (c \<in> set [CHR '' '', CHR 0x09, CHR 0x0A, CHR 0x0D])"

definition digit_val :: "char \<Rightarrow> nat" where
  "digit_val c = of_char c - 48"

fun dec_val :: "string \<Rightarrow> nat \<Rightarrow> nat" where
  "dec_val [] acc = acc"
| "dec_val (c # cs) acc = dec_val cs (10 * acc + digit_val c)"

definition hex_val :: "char \<Rightarrow> nat option" where
  "hex_val c =
     (if is_digit c then Some (of_char c - 48)
      else if c \<in> set ''abcdef'' then Some (of_char c - 87)
      else if c \<in> set ''ABCDEF'' then Some (of_char c - 55)
      else None)"

text \<open>The UTF-8 bytes of a code point of the basic plane.\<close>

definition utf8 :: "nat \<Rightarrow> string option" where
  "utf8 n =
     (if n < 0x80 then Some [char_of n]
      else if n < 0x800 then Some [char_of (0xC0 + n div 64), char_of (0x80 + n mod 64)]
      else if 0xD800 \<le> n \<and> n < 0xE000 then None
      else Some [char_of (0xE0 + n div 4096), char_of (0x80 + (n div 64) mod 64),
                 char_of (0x80 + n mod 64)])"

definition unescape :: "char \<Rightarrow> char option" where
  "unescape c =
     (if c = CHR 0x22 then Some (CHR 0x22)
      else if c = CHR 0x5C then Some (CHR 0x5C)
      else if c = CHR ''/'' then Some (CHR ''/'')
      else if c = CHR ''b'' then Some (CHR 0x08)
      else if c = CHR ''f'' then Some (CHR 0x0C)
      else if c = CHR ''n'' then Some (CHR 0x0A)
      else if c = CHR ''r'' then Some (CHR 0x0D)
      else if c = CHR ''t'' then Some (CHR 0x09)
      else None)"

text \<open>The token of a finished numeral: at least one digit, no leading zero.\<close>

definition num_tok :: "bool \<Rightarrow> string \<Rightarrow> tok option" where
  "num_tok neg rds =
     (let ds = rev rds in
      if ds = [] \<or> (hd ds = CHR ''0'' \<and> length ds > 1) then None
      else Some (TVal (JInt (if neg then - int (dec_val ds 0) else int (dec_val ds 0)))))"

definition word_tok :: "string \<Rightarrow> tok option" where
  "word_tok rcs =
     (let w = rev rcs in
      if w = ''null'' then Some (TVal JNull)
      else if w = ''true'' then Some (TVal (JBool True))
      else if w = ''false'' then Some (TVal (JBool False))
      else None)"

text \<open>A character read outside a string, a numeral and a word.\<close>

definition lex_default :: "tok list \<Rightarrow> char \<Rightarrow> (tok list \<times> lexmode) option" where
  "lex_default ts c =
     (if is_json_ws c then Some (ts, LDefault)
      else if c = CHR ''{'' then Some (TLBrace # ts, LDefault)
      else if c = CHR ''}'' then Some (TRBrace # ts, LDefault)
      else if c = CHR ''['' then Some (TLBrack # ts, LDefault)
      else if c = CHR '']'' then Some (TRBrack # ts, LDefault)
      else if c = CHR '':'' then Some (TColon # ts, LDefault)
      else if c = CHR '','' then Some (TComma # ts, LDefault)
      else if c = CHR 0x22 then Some (ts, LStr [])
      else if c = CHR ''-'' then Some (ts, LNum True [])
      else if is_digit c then Some (ts, LNum False [c])
      else if is_lower c then Some (ts, LWord [c])
      else None)"

text \<open>One character of input; the tokens are collected in reverse.\<close>

fun lex_step :: "tok list \<times> lexmode \<Rightarrow> char \<Rightarrow> (tok list \<times> lexmode) option" where
  "lex_step (ts, LDefault) c = lex_default ts c"
| "lex_step (ts, LStr acc) c =
     (if c = CHR 0x22 then Some (TVal (JStr (rev acc)) # ts, LDefault)
      else if c = CHR 0x5C then Some (ts, LEsc acc)
      else if (of_char c :: nat) < 0x20 then None
      else Some (ts, LStr (c # acc)))"
| "lex_step (ts, LEsc acc) c =
     (if c = CHR ''u'' then Some (ts, LUni acc [])
      else (case unescape c of None \<Rightarrow> None | Some d \<Rightarrow> Some (ts, LStr (d # acc))))"
| "lex_step (ts, LUni acc hs) c =
     (case hex_val c of
        None \<Rightarrow> None
      | Some h \<Rightarrow>
          (if length hs < 3 then Some (ts, LUni acc (hs @ [h]))
           else (case utf8 (foldl (\<lambda>a d. 16 * a + d) 0 (hs @ [h])) of
                   None \<Rightarrow> None
                 | Some bs \<Rightarrow> Some (ts, LStr (rev bs @ acc)))))"
| "lex_step (ts, LNum neg rds) c =
     (if is_digit c then Some (ts, LNum neg (c # rds))
      else if c \<in> set ''.eE'' then None
      else (case num_tok neg rds of
              None \<Rightarrow> None
            | Some t \<Rightarrow> lex_default (t # ts) c))"
| "lex_step (ts, LWord rcs) c =
     (if is_lower c then Some (ts, LWord (c # rcs))
      else (case word_tok rcs of
              None \<Rightarrow> None
            | Some t \<Rightarrow> lex_default (t # ts) c))"

fun lex_run :: "tok list \<times> lexmode \<Rightarrow> string \<Rightarrow> (tok list \<times> lexmode) option" where
  "lex_run st [] = Some st"
| "lex_run st (c # cs) = (case lex_step st c of None \<Rightarrow> None | Some st' \<Rightarrow> lex_run st' cs)"

text \<open>At the end of the text a numeral or a word is finished; an open string is an error.\<close>

fun lex_finish :: "tok list \<times> lexmode \<Rightarrow> tok list option" where
  "lex_finish (ts, LDefault) = Some (rev ts)"
| "lex_finish (ts, LNum neg rds) =
     (case num_tok neg rds of None \<Rightarrow> None | Some t \<Rightarrow> Some (rev (t # ts)))"
| "lex_finish (ts, LWord rcs) =
     (case word_tok rcs of None \<Rightarrow> None | Some t \<Rightarrow> Some (rev (t # ts)))"
| "lex_finish (ts, _) = None"

definition tokens :: "string \<Rightarrow> tok list option" where
  "tokens s = (case lex_run ([], LDefault) s of None \<Rightarrow> None | Some st \<Rightarrow> lex_finish st)"

text \<open>
  The parser keeps a stack of the containers that are open, and what it expects next.
\<close>

datatype frame = FArr "json list" | FObj "(string \<times> json) list" "string option"

datatype expect =
    EValue | EValueOrClose | EKeyOrClose | EKey | EColon | ECommaOrClose | EDone json

text \<open>A finished value goes into the innermost open container, or is the result.\<close>

fun push_value :: "frame list \<Rightarrow> json \<Rightarrow> (frame list \<times> expect) option" where
  "push_value [] v = Some ([], EDone v)"
| "push_value (FArr es # fs) v = Some (FArr (v # es) # fs, ECommaOrClose)"
| "push_value (FObj kvs (Some k) # fs) v = Some (FObj (dict_set kvs k v) None # fs, ECommaOrClose)"
| "push_value (FObj kvs None # fs) v = None"

definition begin_value :: "frame list \<Rightarrow> tok \<Rightarrow> (frame list \<times> expect) option" where
  "begin_value fs t =
     (case t of
        TVal v \<Rightarrow> push_value fs v
      | TLBrack \<Rightarrow> Some (FArr [] # fs, EValueOrClose)
      | TLBrace \<Rightarrow> Some (FObj [] None # fs, EKeyOrClose)
      | _ \<Rightarrow> None)"

definition close_arr :: "frame list \<Rightarrow> (frame list \<times> expect) option" where
  "close_arr fs = (case fs of FArr es # fs' \<Rightarrow> push_value fs' (JArr (rev es)) | _ \<Rightarrow> None)"

definition close_obj :: "frame list \<Rightarrow> (frame list \<times> expect) option" where
  "close_obj fs = (case fs of FObj kvs None # fs' \<Rightarrow> push_value fs' (JObj kvs) | _ \<Rightarrow> None)"

definition read_key :: "frame list \<Rightarrow> tok \<Rightarrow> (frame list \<times> expect) option" where
  "read_key fs t =
     (case (fs, t) of
        (FObj kvs None # fs', TVal (JStr k)) \<Rightarrow> Some (FObj kvs (Some k) # fs', EColon)
      | _ \<Rightarrow> None)"

fun parse_step :: "frame list \<times> expect \<Rightarrow> tok \<Rightarrow> (frame list \<times> expect) option" where
  "parse_step (fs, EValue) t = begin_value fs t"
| "parse_step (fs, EValueOrClose) t = (if t = TRBrack then close_arr fs else begin_value fs t)"
| "parse_step (fs, EKeyOrClose) t = (if t = TRBrace then close_obj fs else read_key fs t)"
| "parse_step (fs, EKey) t = read_key fs t"
| "parse_step (fs, EColon) t = (if t = TColon then Some (fs, EValue) else None)"
| "parse_step (fs, ECommaOrClose) t =
     (case (fs, t) of
        (FArr es # fs', TComma) \<Rightarrow> Some (fs, EValue)
      | (FArr es # fs', TRBrack) \<Rightarrow> close_arr fs
      | (FObj kvs None # fs', TComma) \<Rightarrow> Some (fs, EKey)
      | (FObj kvs None # fs', TRBrace) \<Rightarrow> close_obj fs
      | _ \<Rightarrow> None)"
| "parse_step (fs, EDone v) t = None"

fun parse_run :: "frame list \<times> expect \<Rightarrow> tok list \<Rightarrow> (frame list \<times> expect) option" where
  "parse_run st [] = Some st"
| "parse_run st (t # ts) =
     (case parse_step st t of None \<Rightarrow> None | Some st' \<Rightarrow> parse_run st' ts)"

definition json_loads :: "string \<Rightarrow> json option" where
  "json_loads s =
     (case tokens s of
        None \<Rightarrow> None
      | Some ts \<Rightarrow>
          (case parse_run ([], EValue) ts of
             Some ([], EDone v) \<Rightarrow> Some v
           | _ \<Rightarrow> None))"

section \<open>Exceptions and Python's dynamic operations\<close>

text \<open>
  A computation that may raise returns \<open>exn + 'a\<close>, \<open>Inl\<close> the exception. The
  exceptions of the provider side are kept by their class: the program only prints them.
\<close>

datatype exn =
    JSONDecodeError
  | AttributeError
  | TypeError
  | KeyError
  | IndexError
  | ValueError
  | HTTPError int "string option"
  | URLError
  | OtherException string

type_synonym dict = "(string \<times> json) list"

type_synonym loader = "string \<Rightarrow> exn + json"

definition py_json_loads :: loader where
  "py_json_loads s = (case json_loads s of None \<Rightarrow> Inl JSONDecodeError | Some v \<Rightarrow> Inr v)"

text \<open>Truth value testing: \<open>None\<close>, \<open>False\<close>, zero and empty containers are false.\<close>

fun truthy :: "json \<Rightarrow> bool" where
  "truthy JNull = False"
| "truthy (JBool b) = b"
| "truthy (JInt n) = (n \<noteq> 0)"
| "truthy (JStr s) = (s \<noteq> [])"
| "truthy (JArr xs) = (xs \<noteq> [])"
| "truthy (JObj kvs) = (kvs \<noteq> [])"

text \<open>\<open>x.get(k, d)\<close>: only a dictionary has the method.\<close>

fun py_get_default :: "json \<Rightarrow> string \<Rightarrow> json \<Rightarrow> exn + json" where
  "py_get_default (JObj kvs) k d = Inr (case map_of kvs k of None \<Rightarrow> d | Some v \<Rightarrow> v)"
| "py_get_default _ k d = Inl AttributeError"

definition py_get :: "json \<Rightarrow> string \<Rightarrow> exn + json" where
  "py_get x k = py_get_default x k JNull"

text \<open>\<open>x or {}\<close>\<close>

definition or_empty_dict :: "json \<Rightarrow> json" where
  "or_empty_dict x = (if truthy x then x else JObj [])"

section \<open>Decoding tool-call arguments\<close>

text \<open>
  \<open>normalize_arguments\<close> (lines 473 to 484). The body of the \<open>try\<close> either raises,
  returns the parsed dictionary, or falls through to the final \<open>return {}\<close>; the handler
  catches every exception.
\<close>

definition normalize_arguments_try :: "loader \<Rightarrow> string \<Rightarrow> exn + dict option" where
  "normalize_arguments_try loads arguments =
     (case loads arguments of
        Inl e \<Rightarrow> Inl e
      | Inr args_obj \<Rightarrow> (case args_obj of JObj d \<Rightarrow> Inr (Some d) | _ \<Rightarrow> Inr None))"

definition normalize_arguments :: "loader \<Rightarrow> json \<Rightarrow> exn + dict" where
  "normalize_arguments loads arguments =
     (case arguments of
        JObj d \<Rightarrow> Inr d
      | JStr s \<Rightarrow>
          (case normalize_arguments_try loads s of
             Inl e \<Rightarrow> Inr []
           | Inr (Some d) \<Rightarrow> Inr d
           | Inr None \<Rightarrow> Inr [])
      | _ \<Rightarrow> Inr [])"

lemma json_loads_empty: "json_loads '''' = None"
  by (simp add: json_loads_def tokens_def)

lemma json_loads_not_json: "json_loads ''not json'' = None"
  by (simp add: json_loads_def tokens_def lex_default_def is_json_ws_def is_digit_def
      is_lower_def word_tok_def)

lemma json_loads_empty_array: "json_loads ''[]'' = Some (JArr [])"
  by (simp add: json_loads_def tokens_def lex_default_def is_json_ws_def is_digit_def
      is_lower_def close_arr_def begin_value_def)

lemma json_loads_a1: "json_loads ''{\"a\":1}'' = Some (JObj [(''a'', JInt 1)])"
  by (simp add: json_loads_def tokens_def lex_default_def is_json_ws_def is_digit_def
      is_lower_def close_obj_def begin_value_def read_key_def num_tok_def digit_val_def)

text \<open>
  C7. Decoding an argument value never raises. For an argument string, a reader that
  raises or returns anything but a dictionary gives the empty dictionary; the texts
  \<open>""\<close>, \<open>not json\<close> and \<open>[]\<close> decode to the empty dictionary and \<open>{"a":1}\<close> decodes to
  the dictionary with the one entry \<open>a: 1\<close>.
\<close>

theorem normalize_arguments_never_raises:
  "(\<exists>d. normalize_arguments loads a = Inr d)
   \<and> normalize_arguments loads (JStr s) =
       Inr (case loads s of Inr (JObj d) \<Rightarrow> d | _ \<Rightarrow> [])
   \<and> normalize_arguments py_json_loads (JStr '''') = Inr []
   \<and> normalize_arguments py_json_loads (JStr ''not json'') = Inr []
   \<and> normalize_arguments py_json_loads (JStr ''[]'') = Inr []
   \<and> normalize_arguments py_json_loads (JStr ''{\"a\":1}'') = Inr [(''a'', JInt 1)]"
proof -
  have total: "\<exists>d. normalize_arguments loads a = Inr d"
    by (cases a)
       (auto simp: normalize_arguments_def normalize_arguments_try_def
             split: sum.splits option.splits json.splits)
  have shape: "normalize_arguments loads (JStr s) =
      Inr (case loads s of Inr (JObj d) \<Rightarrow> d | _ \<Rightarrow> [])"
    by (auto simp: normalize_arguments_def normalize_arguments_try_def
             split: sum.splits option.splits json.splits)
  have ex: "normalize_arguments py_json_loads (JStr '''') = Inr []"
      "normalize_arguments py_json_loads (JStr ''not json'') = Inr []"
      "normalize_arguments py_json_loads (JStr ''[]'') = Inr []"
      "normalize_arguments py_json_loads (JStr ''{\"a\":1}'') = Inr [(''a'', JInt 1)]"
    by (simp_all add: normalize_arguments_def normalize_arguments_try_def py_json_loads_def
        json_loads_empty json_loads_not_json json_loads_empty_array json_loads_a1)
  from total shape ex show ?thesis by blast
qed


section \<open>The tool channel\<close>

text \<open>\<open>str(n)\<close> of an integer: its decimal digits.\<close>

definition digit_char :: "nat \<Rightarrow> char" where
  "digit_char d = char_of (48 + d)"

fun nat_digits :: "nat \<Rightarrow> string" where
  "nat_digits n =
     (if n < 10 then [digit_char n] else nat_digits (n div 10) @ [digit_char (n mod 10)])"

declare nat_digits.simps [simp del]

definition str_int :: "int \<Rightarrow> string" where
  "str_int i = (if i < 0 then CHR ''-'' # nat_digits (nat (- i)) else nat_digits (nat i))"

text \<open>
  The exceptions that can reach the conversation loop from a tool call, each with the
  text \<open>str(e)\<close> gives: the \<open>BrokenPipeError\<close> of a write to a child that no longer reads
  (the text is the one of a POSIX system), the three \<open>RuntimeError\<close>s that \<open>request\<close>
  raises, the decoder's exception on a reply line that is not JSON (its text is the
  decoder's), and the \<open>AttributeError\<close> of \<open>result.get\<close> on a result that is not a
  dictionary.
\<close>

datatype tool_exn =
    BrokenPipeError
  | RuntimeError string
  | ReplyDecodeError string
  | NoAttributeGet string

fun exn_text :: "tool_exn \<Rightarrow> string" where
  "exn_text BrokenPipeError = ''[Errno 32] Broken pipe''"
| "exn_text (RuntimeError m) = m"
| "exn_text (ReplyDecodeError m) = m"
| "exn_text (NoAttributeGet tname) =
     [CHR 0x27] @ tname @ [CHR 0x27] @ '' object has no attribute '' @ [CHR 0x27] @ ''get''
       @ [CHR 0x27]"

text \<open>
  The request and the reply of the line protocol. A reply is modelled after
  \<open>json.loads\<close>, with the types of the protocol: the id (absent, or a string), the error
  (absent, or an object with a string message) and the result (any value, \<open>JNull\<close> when
  absent). \<open>BadLine\<close> is a line that \<open>json.loads\<close> rejects.
\<close>

record tool_request =
  req_id :: string
  req_method :: string
  req_params :: json

record rpc_response =
  resp_id :: "string option"
  resp_error :: "string option"
  resp_result :: json

datatype reply_line = BadLine string | Reply rpc_response

text \<open>
  \<open>ToolServerClient\<close>: the counter, and the child process. The child is the lines that
  the client has written to its standard input so far (taken by the child or not), the
  lines it will still write to its standard output (when these are used up \<open>readline\<close>
  returns the empty string), and the number of lines it still takes from its standard
  input before it closes it, \<open>None\<close> for a child that never does. Once the child has
  closed its standard input, for instance because it has exited, the write of a request
  raises \<open>BrokenPipeError\<close> at the flush and nothing is read.
\<close>

record tool_server_client =
  next_id :: int
  proc_stdin :: "tool_request list"
  proc_stdout :: "reply_line list"
  proc_reads :: "nat option"

definition new_client :: "nat option \<Rightarrow> reply_line list \<Rightarrow> tool_server_client" where
  "new_client reads out = \<lparr>next_id = 1, proc_stdin = [], proc_stdout = out, proc_reads = reads\<rparr>"

text \<open>\<open>ToolServerClient.request\<close> (lines 43 to 58).\<close>

definition request ::
  "tool_server_client \<Rightarrow> string \<Rightarrow> json \<Rightarrow> (tool_exn + json) \<times> tool_server_client" where
  "request self method params =
     (let rid = str_int (next_id self);
          payload = \<lparr>req_id = rid, req_method = method, req_params = or_empty_dict params\<rparr>;
          c1 = self\<lparr>next_id := next_id self + 1, proc_stdin := proc_stdin self @ [payload]\<rparr>
      in if proc_reads c1 = Some 0 then (Inl BrokenPipeError, c1)
         else
           (let c2 = c1\<lparr>proc_reads := map_option (\<lambda>k. k - 1) (proc_reads c1)\<rparr>
            in case proc_stdout c2 of
                 [] \<Rightarrow> (Inl (RuntimeError ''toolserver exited''), c2)
               | line # rest \<Rightarrow>
                   (let c3 = c2\<lparr>proc_stdout := rest\<rparr>
                    in case line of
                         BadLine msg \<Rightarrow> (Inl (ReplyDecodeError msg), c3)
                       | Reply resp \<Rightarrow>
                           if resp_id resp \<noteq> Some rid then
                             (Inl (RuntimeError (''mismatched response id: expected '' @ rid
                                    @ '', got ''
                                    @ (case resp_id resp of None \<Rightarrow> ''None'' | Some i \<Rightarrow> i))), c3)
                           else (case resp_error resp of
                                   Some m \<Rightarrow> (Inl (RuntimeError m), c3)
                                 | None \<Rightarrow> (Inr (resp_result resp), c3)))))"

definition list_tools :: "tool_server_client \<Rightarrow> (tool_exn + json) \<times> tool_server_client" where
  "list_tools self = request self ''list_tools'' JNull"

definition call_tool ::
  "tool_server_client \<Rightarrow> json \<Rightarrow> dict \<Rightarrow> (tool_exn + json) \<times> tool_server_client" where
  "call_tool self name input_obj =
     request self ''call_tool'' (JObj [(''name'', name), (''input'', JObj input_obj)])"

text \<open>A sequence of requests on one client, whatever each returns or raises.\<close>

fun requests :: "tool_server_client \<Rightarrow> (string \<times> json) list \<Rightarrow> tool_server_client" where
  "requests self [] = self"
| "requests self ((m, p) # rs) = requests (snd (request self m p)) rs"

text \<open>How many of \<open>n\<close> requests in a row the child takes.\<close>

definition taken :: "nat option \<Rightarrow> nat \<Rightarrow> nat" where
  "taken reads n = (case reads of None \<Rightarrow> n | Some k \<Rightarrow> min k n)"


lemma nat_digits_nonempty: "nat_digits n \<noteq> []"
  by (subst nat_digits.simps) simp

lemma digit_char_inj: "a < 10 \<Longrightarrow> b < 10 \<Longrightarrow> digit_char a = digit_char b \<Longrightarrow> a = b"
  by (simp add: digit_char_def char_of_eq_iff take_bit_eq_mod)

lemma nat_digits_inj: "nat_digits n = nat_digits m \<Longrightarrow> n = m"
proof (induction n arbitrary: m rule: nat_digits.induct)
  case (1 n)
  show ?case
  proof (cases "n < 10")
    case True
    then have n: "nat_digits n = [digit_char n]" by (subst nat_digits.simps) simp
    show ?thesis
    proof (cases "m < 10")
      case True
      then have "nat_digits m = [digit_char m]" by (subst nat_digits.simps) simp
      with n "1.prems" \<open>n < 10\<close> True show ?thesis by (auto dest: digit_char_inj)
    next
      case False
      then have "nat_digits m = nat_digits (m div 10) @ [digit_char (m mod 10)]"
        by (subst nat_digits.simps) simp
      with n "1.prems" nat_digits_nonempty[of "m div 10"] show ?thesis by (cases "nat_digits (m div 10)") auto
    qed
  next
    case False
    then have n: "nat_digits n = nat_digits (n div 10) @ [digit_char (n mod 10)]"
      by (subst nat_digits.simps) simp
    show ?thesis
    proof (cases "m < 10")
      case True
      then have "nat_digits m = [digit_char m]" by (subst nat_digits.simps) simp
      with n "1.prems" nat_digits_nonempty[of "n div 10"] show ?thesis by (cases "nat_digits (n div 10)") auto
    next
      case m: False
      then have "nat_digits m = nat_digits (m div 10) @ [digit_char (m mod 10)]"
        by (subst nat_digits.simps) simp
      with n "1.prems" have a: "nat_digits (n div 10) = nat_digits (m div 10)"
        and b: "digit_char (n mod 10) = digit_char (m mod 10)" by auto
      from "1.IH"[OF False a] have "n div 10 = m div 10" .
      moreover from b have "n mod 10 = m mod 10" by (auto dest!: digit_char_inj[rotated 2])
      ultimately show ?thesis by (metis div_mult_mod_eq)
    qed
  qed
qed


lemma str_int_inj_nonneg: "0 \<le> i \<Longrightarrow> 0 \<le> j \<Longrightarrow> str_int i = str_int j \<Longrightarrow> i = j"
  by (auto simp: str_int_def dest!: nat_digits_inj)

lemma request_next_id: "next_id (snd (request c m p)) = next_id c + 1"
  by (simp add: request_def Let_def split: list.splits reply_line.splits option.splits)

lemma request_stdin:
  "proc_stdin (snd (request c m p)) =
     proc_stdin c @ [\<lparr>req_id = str_int (next_id c), req_method = m, req_params = or_empty_dict p\<rparr>]"
  by (simp add: request_def Let_def split: list.splits reply_line.splits option.splits)

lemma request_stdout:
  "proc_stdout (snd (request c m p)) =
     (if proc_reads c = Some 0 then proc_stdout c else tl (proc_stdout c))"
  by (simp add: request_def Let_def split: list.splits reply_line.splits option.splits)

lemma request_reads:
  "proc_reads (snd (request c m p)) =
     (if proc_reads c = Some 0 then Some 0 else map_option (\<lambda>k. k - 1) (proc_reads c))"
  by (simp add: request_def Let_def split: list.splits reply_line.splits option.splits)

lemma requests_ids:
  "map req_id (proc_stdin (requests c rs)) =
     map req_id (proc_stdin c) @ map (\<lambda>i. str_int (next_id c + int i)) [0..<length rs]"
proof (induction rs arbitrary: c)
  case Nil
  show ?case by simp
next
  case (Cons r rs)
  obtain m p where r: "r = (m, p)" by (cases r)
  have "map (\<lambda>i. str_int (next_id c + int i)) [0..<Suc (length rs)] =
        str_int (next_id c) # map (\<lambda>i. str_int (next_id c + 1 + int i)) [0..<length rs]"
    by (simp add: upt_conv_Cons map_Suc_upt[symmetric] ac_simps del: upt_Suc)
  then show ?case
    using Cons.IH[of "snd (request c m p)"] by (simp add: r request_next_id request_stdin)
qed

lemma requests_next_id: "next_id (requests c rs) = next_id c + int (length rs)"
  by (induction rs arbitrary: c) (auto simp: request_next_id)

lemma requests_stdout:
  "proc_stdout (requests c rs) = drop (taken (proc_reads c) (length rs)) (proc_stdout c)"
proof (induction rs arbitrary: c)
  case Nil
  show ?case by (simp add: taken_def split: option.splits)
next
  case (Cons r rs)
  obtain m p where r: "r = (m, p)" by (cases r)
  show ?case
  proof (cases "proc_reads c")
    case None
    then show ?thesis
      using Cons.IH[of "snd (request c m p)"]
      by (simp add: r request_stdout request_reads taken_def drop_Suc)
  next
    case (Some k)
    show ?thesis
    proof (cases k)
      case 0
      with Some show ?thesis
        using Cons.IH[of "snd (request c m p)"]
        by (simp add: r request_stdout request_reads taken_def)
    next
      case (Suc j)
      with Some show ?thesis
        using Cons.IH[of "snd (request c m p)"]
        by (simp add: r request_stdout request_reads taken_def drop_Suc)
    qed
  qed
qed

lemma new_client_ids:
  "map req_id (proc_stdin (requests (new_client reads out) rs)) =
     map (\<lambda>k. str_int (int k)) [1..<Suc (length rs)]"
proof -
  have "map (\<lambda>i. str_int (1 + int i)) [0..<length rs] = map (\<lambda>k. str_int (int k)) (map Suc [0..<length rs])"
    by (simp add: add.commute)
  then show ?thesis
    by (simp add: requests_ids new_client_def map_Suc_upt del: upt_Suc)
qed

lemma request_returns:
  "fst (request c m p) = Inr v \<Longrightarrow>
     \<exists>resp rest. proc_reads c \<noteq> Some 0
        \<and> proc_stdout c = Reply resp # rest \<and> resp_id resp = Some (str_int (next_id c))
        \<and> resp_error resp = None \<and> resp_result resp = v"
  by (auto simp: request_def Let_def split: list.splits reply_line.splits option.splits if_splits)

lemma request_mismatch:
  "proc_reads c \<noteq> Some 0 \<Longrightarrow> proc_stdout c = Reply resp # rest \<Longrightarrow>
   resp_id resp \<noteq> Some (str_int (next_id c)) \<Longrightarrow>
     fst (request c m p) =
       Inl (RuntimeError (''mismatched response id: expected '' @ str_int (next_id c) @ '', got ''
              @ (case resp_id resp of None \<Rightarrow> ''None'' | Some i \<Rightarrow> i)))"
  by (simp add: request_def Let_def)

text \<open>
  C9. On a fresh client the requests carry the ids \<open>str(1)\<close>, \<open>str(2)\<close>, ... in the
  order sent, all different. Each request writes one line and, when the child still
  takes it, reads one line (none at the end of the stream) before it returns; it advances
  the counter whether it returns or raises. It returns a result only when the line read
  is a reply with the request's own id; a reply with another id raises the mismatch
  error, and the line is dropped: the next request reads the line after it, with the
  next id. A request that the child no longer takes raises at the write and reads
  nothing.
\<close>

theorem tool_channel_ids:
  "map req_id (proc_stdin (requests (new_client reads out) rs)) =
       map (\<lambda>k. str_int (int k)) [1..<Suc (length rs)]
   \<and> distinct (map req_id (proc_stdin (requests (new_client reads out) rs)))
   \<and> next_id (requests (new_client reads out) rs) = 1 + int (length rs)
   \<and> proc_stdout (requests (new_client reads out) rs) = drop (taken reads (length rs)) out
   \<and> taken None (length rs) = length rs
   \<and> length (proc_stdin (snd (request c m p))) = length (proc_stdin c) + 1
   \<and> proc_stdout (snd (request c m p)) =
       (if proc_reads c = Some 0 then proc_stdout c else tl (proc_stdout c))
   \<and> next_id (snd (request c m p)) = next_id c + 1
   \<and> (fst (request c m p) = Inr v \<longrightarrow>
        (\<exists>resp rest. proc_reads c \<noteq> Some 0 \<and> proc_stdout c = Reply resp # rest
           \<and> resp_id resp = Some (str_int (next_id c))
           \<and> resp_error resp = None \<and> resp_result resp = v))
   \<and> (proc_reads c \<noteq> Some 0 \<and> proc_stdout c = Reply resp # rest
        \<and> resp_id resp \<noteq> Some (str_int (next_id c)) \<longrightarrow>
        fst (request c m p) =
          Inl (RuntimeError (''mismatched response id: expected '' @ str_int (next_id c)
                 @ '', got '' @ (case resp_id resp of None \<Rightarrow> ''None'' | Some i \<Rightarrow> i))))"
proof -
  have "inj_on (\<lambda>k. str_int (int k)) (set [1..<Suc (length rs)])"
    by (rule inj_onI) (auto dest: str_int_inj_nonneg[rotated 2])
  then have "distinct (map (\<lambda>k. str_int (int k)) [1..<Suc (length rs)])"
    by (simp add: distinct_map del: upt_Suc)
  then have d: "distinct (map req_id (proc_stdin (requests (new_client reads out) rs)))"
    by (simp only: new_client_ids)
  have n: "next_id (requests (new_client reads out) rs) = 1 + int (length rs)"
    by (simp add: requests_next_id new_client_def)
  have o: "proc_stdout (requests (new_client reads out) rs) = drop (taken reads (length rs)) out"
    by (simp add: requests_stdout new_client_def)
  have t: "taken None (length rs) = length rs"
    by (simp add: taken_def)
  show ?thesis
    using new_client_ids[of reads out rs] d n o t request_stdin[of c m p] request_stdout[of c m p]
      request_next_id[of c m p] request_returns[of c m p v] request_mismatch[of c resp rest m p]
    by simp
qed

definition reply_ok :: "string \<Rightarrow> json \<Rightarrow> reply_line" where
  "reply_ok i v = Reply \<lparr>resp_id = Some i, resp_error = None, resp_result = v\<rparr>"

theorem tool_channel_ids_witness:
  "map req_id (proc_stdin (requests (new_client None [reply_ok ''1'' (JInt 5), reply_ok ''7'' JNull])
       [(''list_tools'', JNull), (''call_tool'', JNull), (''call_tool'', JNull)])) = [''1'', ''2'', ''3'']
   \<and> map req_id (proc_stdin (requests (new_client (Some 1) [reply_ok ''1'' (JInt 5), reply_ok ''7'' JNull])
       [(''list_tools'', JNull), (''call_tool'', JNull), (''call_tool'', JNull)])) = [''1'', ''2'', ''3'']
   \<and> proc_stdout (requests (new_client (Some 1) [reply_ok ''1'' (JInt 5), reply_ok ''7'' JNull])
       [(''list_tools'', JNull), (''call_tool'', JNull), (''call_tool'', JNull)]) = [reply_ok ''7'' JNull]
   \<and> fst (request (new_client None [reply_ok ''1'' (JInt 5), reply_ok ''7'' JNull]) ''list_tools'' JNull) = Inr (JInt 5)
   \<and> (\<exists>resp rest. [reply_ok ''1'' (JInt 5), reply_ok ''7'' JNull] = Reply resp # rest
         \<and> resp_id resp = Some ''1'' \<and> resp_error resp = None \<and> resp_result resp = JInt 5)
   \<and> resp_id \<lparr>resp_id = Some ''7'', resp_error = None, resp_result = JNull\<rparr> \<noteq> Some (str_int 2)
   \<and> fst (request \<lparr>next_id = 2, proc_stdin = [], proc_stdout = [reply_ok ''7'' JNull],
                   proc_reads = None\<rparr> ''call_tool'' JNull)
       = Inl (RuntimeError ''mismatched response id: expected 2, got 7'')"
proof -
  have s1: "str_int 1 = ''1''" and s2: "str_int 2 = ''2''" and s3: "str_int 3 = ''3''"
    by code_simp+
  have r: "fst (request (new_client None [reply_ok ''1'' (JInt 5), reply_ok ''7'' JNull]) ''list_tools'' JNull) = Inr (JInt 5)"
    by (simp add: request_def new_client_def reply_ok_def s1)
  have u: "[1..<Suc (Suc (Suc (Suc 0)))] = [1, 2, 3]"
    by (simp add: upt_conv_Cons)
  show ?thesis
    using tool_channel_ids[of None "[reply_ok ''1'' (JInt 5), reply_ok ''7'' JNull]"
        "[(''list_tools'', JNull), (''call_tool'', JNull), (''call_tool'', JNull)]"
        "new_client None [reply_ok ''1'' (JInt 5), reply_ok ''7'' JNull]" "''list_tools''" JNull "JInt 5"]
      tool_channel_ids[of "Some 1" "[reply_ok ''1'' (JInt 5), reply_ok ''7'' JNull]"
        "[(''list_tools'', JNull), (''call_tool'', JNull), (''call_tool'', JNull)]"
        "\<lparr>next_id = 2, proc_stdin = [], proc_stdout = [reply_ok ''7'' JNull], proc_reads = None\<rparr>"
        "''call_tool''" JNull JNull
        "\<lparr>resp_id = Some ''7'', resp_error = None, resp_result = JNull\<rparr>" "[]"]
      r
    by (simp add: s1 s2 s3 u new_client_def reply_ok_def taken_def)
qed


section \<open>The retry policy of the provider client\<close>

text \<open>
  \<open>_request_with_retries\<close> (lines 253 to 279) and the loop of \<open>stream\<close> (lines 319 to
  343) are the same loop around two different bodies of the \<open>try\<close>: reading and decoding
  the whole response, and decoding the event stream. \<open>urlopen\<close> gives, for each
  attempt, the response or the exception it raises; \<open>uniform\<close> gives the value of
  \<open>random.uniform(0.0, 0.2)\<close> drawn at each attempt, as an exact fraction. The loop
  returns the sleeps it made in milliseconds, the number of attempts, and the value it
  returns or the exception it raises.
\<close>

text \<open>\<open>retry_after and retry_after.isdigit()\<close>, then \<open>int(retry_after) * 1000\<close>.\<close>

definition retry_after_ms :: "string option \<Rightarrow> int option" where
  "retry_after_ms retry_after =
     (case retry_after of
        None \<Rightarrow> None
      | Some s \<Rightarrow> if s \<noteq> [] \<and> list_all is_digit s then Some (int (dec_val s 0) * 1000) else None)"

text \<open>\<open>int(x)\<close> of a fraction truncates towards zero.\<close>

definition py_int_trunc :: "rat \<Rightarrow> int" where
  "py_int_trunc x = (if 0 \<le> x then \<lfloor>x\<rfloor> else \<lceil>x\<rceil>)"

definition backoff_sleep_ms :: "nat \<Rightarrow> rat \<Rightarrow> int" where
  "backoff_sleep_ms attempts u =
     (let backoff = 2000 * 2 ^ (attempts - 1);
          jitter = py_int_trunc (of_int backoff * u)
      in backoff + jitter)"

text \<open>The body of the \<open>try\<close> at one attempt: the request, then what is done with the response.\<close>

definition try_send :: "('r \<Rightarrow> exn + 'a) \<Rightarrow> (nat \<Rightarrow> exn + 'r) \<Rightarrow> nat \<Rightarrow> exn + 'a" where
  "try_send body urlopen attempts =
     (case urlopen attempts of Inl e \<Rightarrow> Inl e | Inr resp \<Rightarrow> body resp)"

function retry_loop ::
  "('r \<Rightarrow> exn + 'a) \<Rightarrow> (nat \<Rightarrow> exn + 'r) \<Rightarrow> (nat \<Rightarrow> rat) \<Rightarrow> int list \<Rightarrow> nat
     \<Rightarrow> int list \<times> nat \<times> (exn + 'a)" where
  "retry_loop body urlopen uniform slept attempts0 =
     (let attempts = attempts0 + 1 in
      case try_send body urlopen attempts of
        Inr v \<Rightarrow> (slept, attempts, Inr v)
      | Inl (HTTPError code retry_after) \<Rightarrow>
          if code \<notin> {429, 500} then (slept, attempts, Inl (HTTPError code retry_after))
          else if attempts \<ge> 8 then (slept, attempts, Inl (HTTPError code retry_after))
          else retry_loop body urlopen uniform
                 (slept @ [case retry_after_ms retry_after of
                             Some sleep_ms \<Rightarrow> sleep_ms
                           | None \<Rightarrow> backoff_sleep_ms attempts (uniform attempts)])
                 attempts
      | Inl URLError \<Rightarrow>
          if attempts \<ge> 8 then (slept, attempts, Inl URLError)
          else retry_loop body urlopen uniform
                 (slept @ [backoff_sleep_ms attempts (uniform attempts)]) attempts
      | Inl e \<Rightarrow> (slept, attempts, Inl e))"
  by pat_completeness auto
termination
  by (relation "measure (\<lambda>(body, urlopen, uniform, slept, attempts0). 8 - attempts0)") auto

declare retry_loop.simps [simp del]



















section \<open>Responses, tool calls and events\<close>

record token_usage =
  input_tokens :: int
  output_tokens :: int
  total_tokens :: int

definition no_usage :: token_usage where
  "no_usage = \<lparr>input_tokens = 0, output_tokens = 0, total_tokens = 0\<rparr>"

text \<open>\<open>TokenUsage.add\<close>\<close>

definition usage_add :: "token_usage \<Rightarrow> token_usage \<Rightarrow> token_usage" where
  "usage_add self other =
     \<lparr>input_tokens = input_tokens self + input_tokens other,
      output_tokens = output_tokens self + output_tokens other,
      total_tokens = total_tokens self + total_tokens other\<rparr>"

text \<open>
  A tool call is a dictionary with exactly the keys \<open>id\<close>, \<open>name\<close> and \<open>arguments\<close>
  wherever the program builds one.
\<close>

record tool_call =
  tc_id :: json
  tc_name :: json
  tc_arguments :: json

text \<open>
  \<open>ProviderResponse\<close>. The message is always a dictionary: the whole assistant message
  on the unary path, and \<open>{"content": text}\<close> on the streaming path.
\<close>

record provider_response =
  pr_message :: dict
  pr_tool_calls :: "tool_call list"
  pr_raw :: json
  pr_usage :: token_usage

text \<open>\<open>ProviderEvent\<close> (its \<open>error\<close> field is never set or read).\<close>

record provider_event =
  ev_type :: string
  ev_content :: string
  ev_tool_call :: "tool_call option"
  ev_response :: "provider_response option"

definition content_delta :: "string \<Rightarrow> provider_event" where
  "content_delta s =
     \<lparr>ev_type = ''content_delta'', ev_content = s, ev_tool_call = None, ev_response = None\<rparr>"

definition tool_use_start :: "tool_call \<Rightarrow> provider_event" where
  "tool_use_start tc =
     \<lparr>ev_type = ''tool_use_start'', ev_content = [], ev_tool_call = Some tc, ev_response = None\<rparr>"

definition tool_use_delta :: "tool_call \<Rightarrow> provider_event" where
  "tool_use_delta tc =
     \<lparr>ev_type = ''tool_use_delta'', ev_content = [], ev_tool_call = Some tc, ev_response = None\<rparr>"

definition tool_use_stop :: "tool_call \<Rightarrow> provider_event" where
  "tool_use_stop tc =
     \<lparr>ev_type = ''tool_use_stop'', ev_content = [], ev_tool_call = Some tc, ev_response = None\<rparr>"

definition complete :: "provider_response \<Rightarrow> provider_event" where
  "complete r =
     \<lparr>ev_type = ''complete'', ev_content = [], ev_tool_call = None, ev_response = Some r\<rparr>"

section \<open>More of Python's dynamic operations\<close>

text \<open>A loop body run over a list, stopping at the first exception.\<close>

fun efold :: "('a \<Rightarrow> 's \<Rightarrow> exn + 's) \<Rightarrow> 'a list \<Rightarrow> 's \<Rightarrow> exn + 's" where
  "efold f [] s = Inr s"
| "efold f (x # xs) s = (case f x s of Inl e \<Rightarrow> Inl e | Inr s' \<Rightarrow> efold f xs s')"

fun emap :: "('a \<Rightarrow> exn + 'b) \<Rightarrow> 'a list \<Rightarrow> exn + 'b list" where
  "emap f [] = Inr []"
| "emap f (x # xs) =
     (case f x of
        Inl e \<Rightarrow> Inl e
      | Inr y \<Rightarrow> (case emap f xs of Inl e \<Rightarrow> Inl e | Inr ys \<Rightarrow> Inr (y # ys)))"

text \<open>\<open>k in d\<close> for a dictionary \<open>d\<close>.\<close>

definition has_key :: "json \<Rightarrow> string \<Rightarrow> bool" where
  "has_key x k = (case x of JObj kvs \<Rightarrow> map_of kvs k \<noteq> None | _ \<Rightarrow> False)"

text \<open>
  The values that \<open>for x in (v or [])\<close> runs over: nothing for a false value, the
  elements of a list, the keys of a dictionary, the characters of a string; a number is
  not iterable.
\<close>

fun py_iter_or_empty :: "json \<Rightarrow> exn + json list" where
  "py_iter_or_empty (JArr xs) = Inr xs"
| "py_iter_or_empty (JObj kvs) = Inr (map (\<lambda>kv. JStr (fst kv)) kvs)"
| "py_iter_or_empty (JStr s) = Inr (map (\<lambda>c. JStr [c]) s)"
| "py_iter_or_empty JNull = Inr []"
| "py_iter_or_empty (JBool b) = (if b then Inl TypeError else Inr [])"
| "py_iter_or_empty (JInt n) = (if n \<noteq> 0 then Inl TypeError else Inr [])"

text \<open>
  \<open>int(s)\<close> of a string: surrounding blanks, an optional sign, then decimal digits that
  single underscores may separate; anything else is a \<open>ValueError\<close>. (Python also reads
  digits outside ASCII.)
\<close>

definition is_str_space :: "char \<Rightarrow> bool" where
  "is_str_space c =
     (c \<in> set [CHR '' '', CHR 0x09, CHR 0x0A, CHR 0x0D, CHR 0x0B, CHR 0x0C,
                CHR 0x1C, CHR 0x1D, CHR 0x1E, CHR 0x1F])"

definition str_strip :: "string \<Rightarrow> string" where
  "str_strip s = rev (dropWhile is_str_space (rev (dropWhile is_str_space s)))"

fun digit_groups :: "string \<Rightarrow> bool" where
  "digit_groups [] = False"
| "digit_groups [c] = is_digit c"
| "digit_groups (c # d # cs) =
     (is_digit c \<and> (if d = CHR ''_'' then digit_groups cs else digit_groups (d # cs)))"

definition py_int_of_str :: "string \<Rightarrow> exn + int" where
  "py_int_of_str s0 =
     (let s = str_strip s0;
          neg = (s \<noteq> [] \<and> hd s = CHR ''-'');
          body = (if s \<noteq> [] \<and> (hd s = CHR ''-'' \<or> hd s = CHR ''+'') then tl s else s)
      in if digit_groups body
         then Inr ((if neg then - 1 else 1) * int (dec_val (filter is_digit body) 0))
         else Inl ValueError)"

text \<open>\<open>int(x or 0)\<close>\<close>

fun py_int_or0 :: "json \<Rightarrow> exn + int" where
  "py_int_or0 JNull = Inr 0"
| "py_int_or0 (JBool b) = Inr (if b then 1 else 0)"
| "py_int_or0 (JInt n) = Inr n"
| "py_int_or0 (JStr s) = (if s = [] then Inr 0 else py_int_of_str s)"
| "py_int_or0 (JArr xs) = (if xs = [] then Inr 0 else Inl TypeError)"
| "py_int_or0 (JObj kvs) = (if kvs = [] then Inr 0 else Inl TypeError)"

text \<open>
  \<open>==\<close> on two values: numbers and booleans compare by value (\<open>True == 1\<close>), lists
  element by element, dictionaries as sets of entries.
\<close>

fun num_of :: "json \<Rightarrow> int option" where
  "num_of (JBool b) = Some (if b then 1 else 0)"
| "num_of (JInt n) = Some n"
| "num_of _ = None"

fun py_eq :: "json \<Rightarrow> json \<Rightarrow> bool"
  and py_eq_list :: "json list \<Rightarrow> json list \<Rightarrow> bool"
  and py_eq_dict :: "(string \<times> json) list \<Rightarrow> (string \<times> json) list \<Rightarrow> bool" where
  "py_eq JNull y = (y = JNull)"
| "py_eq (JBool b) y = (num_of y = Some (if b then 1 else 0))"
| "py_eq (JInt n) y = (num_of y = Some n)"
| "py_eq (JStr s) y = (y = JStr s)"
| "py_eq (JArr xs) y = (case y of JArr ys \<Rightarrow> py_eq_list xs ys | _ \<Rightarrow> False)"
| "py_eq (JObj kvs) y =
     (case y of JObj kvs' \<Rightarrow> length kvs = length kvs' \<and> py_eq_dict kvs kvs' | _ \<Rightarrow> False)"
| "py_eq_list [] ys = (ys = [])"
| "py_eq_list (x # xs) ys = (case ys of [] \<Rightarrow> False | y # ys' \<Rightarrow> py_eq x y \<and> py_eq_list xs ys')"
| "py_eq_dict [] kvs' = True"
| "py_eq_dict ((k, v) # kvs) kvs' =
     (case map_of kvs' k of None \<Rightarrow> False | Some v' \<Rightarrow> py_eq v v' \<and> py_eq_dict kvs kvs')"

text \<open>
  Dictionary keys. A list or a dictionary is unhashable; \<open>True\<close> and \<open>1\<close> are the same
  key, and the dictionary keeps the key that was inserted first.
\<close>

datatype key = KNone | KBool bool | KInt int | KStr string

fun as_key :: "json \<Rightarrow> exn + key" where
  "as_key JNull = Inr KNone"
| "as_key (JBool b) = Inr (KBool b)"
| "as_key (JInt n) = Inr (KInt n)"
| "as_key (JStr s) = Inr (KStr s)"
| "as_key _ = Inl TypeError"

fun key_num :: "key \<Rightarrow> int option" where
  "key_num (KBool b) = Some (if b then 1 else 0)"
| "key_num (KInt n) = Some n"
| "key_num _ = None"

definition key_eq :: "key \<Rightarrow> key \<Rightarrow> bool" where
  "key_eq a b = (case key_num a of Some x \<Rightarrow> key_num b = Some x | None \<Rightarrow> a = b)"

text \<open>\<open>str(k)\<close> of a key, as an f-string formats it.\<close>

fun key_str :: "key \<Rightarrow> string" where
  "key_str KNone = ''None''"
| "key_str (KBool b) = (if b then ''True'' else ''False'')"
| "key_str (KInt n) = str_int n"
| "key_str (KStr s) = s"

type_synonym 'v pydict = "(key \<times> 'v) list"

fun dict_get :: "'v pydict \<Rightarrow> key \<Rightarrow> 'v option" where
  "dict_get [] k = None"
| "dict_get ((k', v) # kvs) k = (if key_eq k' k then Some v else dict_get kvs k)"

fun dict_put :: "'v pydict \<Rightarrow> key \<Rightarrow> 'v \<Rightarrow> 'v pydict" where
  "dict_put [] k v = [(k, v)]"
| "dict_put ((k', v') # kvs) k v =
     (if key_eq k' k then (k', v) # kvs else (k', v') # dict_put kvs k v)"

text \<open>
  The entries in the order of \<open>sorted(d.keys())\<close>. Numbers sort by value and strings by
  their characters; two keys of different kinds, or \<open>None\<close> and any other key, do not
  compare, and \<open>sorted\<close> raises.
\<close>

definition key_int :: "key \<Rightarrow> int" where
  "key_int k = (case key_num k of Some n \<Rightarrow> n | None \<Rightarrow> 0)"

definition key_text :: "key \<Rightarrow> string" where
  "key_text k = (case k of KStr s \<Rightarrow> s | _ \<Rightarrow> [])"

definition is_num_key :: "key \<Rightarrow> bool" where
  "is_num_key k = (key_num k \<noteq> None)"

definition is_str_key :: "key \<Rightarrow> bool" where
  "is_str_key k = (case k of KStr s \<Rightarrow> True | _ \<Rightarrow> False)"

definition sorted_items :: "'v pydict \<Rightarrow> exn + 'v pydict" where
  "sorted_items d =
     (if length d \<le> 1 then Inr d
      else if list_all (\<lambda>kv. is_num_key (fst kv)) d then Inr (sort_key (\<lambda>kv. key_int (fst kv)) d)
      else if list_all (\<lambda>kv. is_str_key (fst kv)) d then Inr (sort_key (\<lambda>kv. key_text (fst kv)) d)
      else Inl TypeError)"


section \<open>The stream decoder\<close>

text \<open>\<open>bytes.strip()\<close> and \<open>bytes.startswith\<close> on a line of the response.\<close>

definition is_space :: "char \<Rightarrow> bool" where
  "is_space c = (c \<in> set [CHR '' '', CHR 0x09, CHR 0x0A, CHR 0x0D, CHR 0x0B, CHR 0x0C])"

definition strip :: "string \<Rightarrow> string" where
  "strip s = rev (dropWhile is_space (rev (dropWhile is_space s)))"

definition startswith :: "string \<Rightarrow> string \<Rightarrow> bool" where
  "startswith s p = (take (length p) s = p)"

text \<open>The local variables of \<open>_parse_stream\<close> (lines 346 to 350).\<close>

record decoder =
  d_events :: "provider_event list"
  d_content :: string
  d_finish_reason :: json
  d_usage :: token_usage
  d_tool_calls_by_index :: "tool_call pydict"

definition new_decoder :: decoder where
  "new_decoder =
     \<lparr>d_events = [], d_content = [], d_finish_reason = JStr [], d_usage = no_usage,
      d_tool_calls_by_index = []\<rparr>"

definition emit :: "provider_event \<Rightarrow> decoder \<Rightarrow> decoder" where
  "emit e st = st\<lparr>d_events := d_events st @ [e]\<rparr>"

text \<open>
  One fragment of \<open>delta["tool_calls"]\<close> (lines 384 to 396). The accumulated arguments
  of a slot are always a string; \<open>+\<close> with a fragment that is not a string raises.
\<close>

definition new_slot :: tool_call where
  "new_slot = \<lparr>tc_id = JStr [], tc_name = JStr [], tc_arguments = JStr []\<rparr>"

definition take_id :: "json \<Rightarrow> tool_call \<times> decoder \<Rightarrow> tool_call \<times> decoder" where
  "take_id tid cs =
     (case cs of (current, st) \<Rightarrow>
        if truthy tid \<and> \<not> truthy (tc_id current)
        then (let current' = current\<lparr>tc_id := tid\<rparr> in (current', emit (tool_use_start current') st))
        else (current, st))"

definition take_name :: "json \<Rightarrow> tool_call \<times> decoder \<Rightarrow> tool_call \<times> decoder" where
  "take_name fname cs =
     (case cs of (current, st) \<Rightarrow>
        if truthy fname \<and> \<not> py_eq (tc_name current) fname
        then (let current' = current\<lparr>tc_name := fname\<rparr> in (current', emit (tool_use_start current') st))
        else (current, st))"

definition take_arguments ::
  "json \<Rightarrow> json \<Rightarrow> tool_call \<times> decoder \<Rightarrow> exn + tool_call \<times> decoder" where
  "take_arguments func fargs cs =
     (case cs of (current, st) \<Rightarrow>
        if has_key func ''arguments'' \<and> truthy fargs
        then (case (tc_arguments current, fargs) of
                (JStr a, JStr b) \<Rightarrow>
                  (let current' = current\<lparr>tc_arguments := JStr (a @ b)\<rparr>
                   in Inr (current', emit (tool_use_delta current') st))
              | _ \<Rightarrow> Inl TypeError)
        else Inr (current, st))"

definition process_tool_fragment :: "json \<Rightarrow> decoder \<Rightarrow> exn + decoder" where
  "process_tool_fragment tc st =
     (case py_get_default tc ''index'' (JInt 0) of Inl e \<Rightarrow> Inl e | Inr idx_value \<Rightarrow>
      case as_key idx_value of Inl e \<Rightarrow> Inl e | Inr idx \<Rightarrow>
      let current = (case dict_get (d_tool_calls_by_index st) idx of
                       None \<Rightarrow> new_slot | Some c \<Rightarrow> c) in
      case py_get tc ''id'' of Inl e \<Rightarrow> Inl e | Inr tid \<Rightarrow>
      let cs1 = take_id tid (current, st) in
      case py_get tc ''function'' of Inl e \<Rightarrow> Inl e | Inr function \<Rightarrow>
      let func = or_empty_dict function in
      case py_get func ''name'' of Inl e \<Rightarrow> Inl e | Inr fname \<Rightarrow>
      let cs2 = take_name fname cs1 in
      case py_get func ''arguments'' of Inl e \<Rightarrow> Inl e | Inr fargs \<Rightarrow>
      case take_arguments func fargs cs2 of Inl e \<Rightarrow> Inl e | Inr (current', st') \<Rightarrow>
      Inr (st'\<lparr>d_tool_calls_by_index := dict_put (d_tool_calls_by_index st') idx current'\<rparr>))"

text \<open>One element of \<open>chunk["choices"]\<close> (lines 377 to 398).\<close>

definition take_content :: "json \<Rightarrow> decoder \<Rightarrow> exn + decoder" where
  "take_content delta_content st =
     (if truthy delta_content
      then (case delta_content of
              JStr s \<Rightarrow> Inr ((emit (content_delta s) st)\<lparr>d_content := d_content st @ s\<rparr>)
            | _ \<Rightarrow> Inl TypeError)
      else Inr st)"

definition process_choice :: "json \<Rightarrow> decoder \<Rightarrow> exn + decoder" where
  "process_choice choice st =
     (case py_get choice ''delta'' of Inl e \<Rightarrow> Inl e | Inr delta_value \<Rightarrow>
      let delta = or_empty_dict delta_value in
      case py_get delta ''content'' of Inl e \<Rightarrow> Inl e | Inr delta_content \<Rightarrow>
      case take_content delta_content st of Inl e \<Rightarrow> Inl e | Inr st1 \<Rightarrow>
      case (if has_key delta ''tool_calls''
            then (case py_get delta ''tool_calls'' of Inl e \<Rightarrow> Inl e | Inr tcs \<Rightarrow>
                  case py_iter_or_empty tcs of Inl e \<Rightarrow> Inl e | Inr fragments \<Rightarrow>
                  efold process_tool_fragment fragments st1)
            else Inr st1) of Inl e \<Rightarrow> Inl e | Inr st2 \<Rightarrow>
      case py_get choice ''finish_reason'' of Inl e \<Rightarrow> Inl e | Inr reason \<Rightarrow>
      Inr (if truthy reason then st2\<lparr>d_finish_reason := reason\<rparr> else st2))"

text \<open>The usage of a chunk (lines 367 to 375) and \<open>extract_token_usage\<close> read the same fields.\<close>

definition usage_of_dict :: "dict \<Rightarrow> exn + token_usage" where
  "usage_of_dict u =
     (case py_int_or0 (case map_of u ''prompt_tokens'' of None \<Rightarrow> JNull | Some v \<Rightarrow> v) of
        Inl e \<Rightarrow> Inl e | Inr i \<Rightarrow>
      case py_int_or0 (case map_of u ''completion_tokens'' of None \<Rightarrow> JNull | Some v \<Rightarrow> v) of
        Inl e \<Rightarrow> Inl e | Inr out \<Rightarrow>
      case py_int_or0 (case map_of u ''total_tokens'' of None \<Rightarrow> JNull | Some v \<Rightarrow> v) of
        Inl e \<Rightarrow> Inl e | Inr t \<Rightarrow>
      Inr \<lparr>input_tokens = i, output_tokens = out, total_tokens = t\<rparr>)"

definition process_chunk :: "json \<Rightarrow> decoder \<Rightarrow> exn + decoder" where
  "process_chunk chunk st =
     (case py_get chunk ''usage'' of Inl e \<Rightarrow> Inl e | Inr chunk_usage \<Rightarrow>
      case (case chunk_usage of
              JObj u \<Rightarrow> (case usage_of_dict u of
                            Inl e \<Rightarrow> Inl e
                          | Inr tu \<Rightarrow> Inr (st\<lparr>d_usage := usage_add (d_usage st) tu\<rparr>))
            | _ \<Rightarrow> Inr st) of Inl e \<Rightarrow> Inl e | Inr st1 \<Rightarrow>
      case py_get chunk ''choices'' of Inl e \<Rightarrow> Inl e | Inr choices \<Rightarrow>
      case py_iter_or_empty choices of Inl e \<Rightarrow> Inl e | Inr cs \<Rightarrow>
      efold process_choice cs st1)"

text \<open>
  The reading loop (lines 351 to 398) over the lines that \<open>readline\<close> returns; an empty
  line is the end of the input. \<open>loads\<close> is \<open>json.loads(data.decode("utf-8"))\<close>.
\<close>

fun read_lines :: "loader \<Rightarrow> string list \<Rightarrow> decoder \<Rightarrow> exn + decoder" where
  "read_lines loads [] st = Inr st"
| "read_lines loads (line # rest) st =
     (if line = [] then Inr st
      else if strip line = [] then read_lines loads rest st
      else if \<not> startswith (strip line) ''data:'' then read_lines loads rest st
      else if strip (drop 5 (strip line)) = ''[DONE]'' then Inr st
      else (case loads (strip (drop 5 (strip line))) of
              Inl e \<Rightarrow> read_lines loads rest st
            | Inr chunk \<Rightarrow>
                (case process_chunk chunk st of
                   Inl e \<Rightarrow> Inl e
                 | Inr st' \<Rightarrow> read_lines loads rest st')))"

text \<open>The end of the input (lines 399 to 408).\<close>

definition finalize_call :: "key \<times> tool_call \<Rightarrow> tool_call" where
  "finalize_call kv =
     (case kv of (idx, tc) \<Rightarrow>
        if \<not> truthy (tc_id tc) then tc\<lparr>tc_id := JStr (''call_'' @ key_str idx)\<rparr> else tc)"

definition stream_response :: "decoder \<Rightarrow> tool_call list \<Rightarrow> provider_response" where
  "stream_response st calls =
     \<lparr>pr_message = [(''content'', JStr (d_content st))],
      pr_tool_calls = calls,
      pr_raw = JObj [(''finish_reason'', d_finish_reason st)],
      pr_usage = d_usage st\<rparr>"

definition finalize :: "decoder \<Rightarrow> exn + provider_event list" where
  "finalize st =
     (case sorted_items (d_tool_calls_by_index st) of
        Inl e \<Rightarrow> Inl e
      | Inr items \<Rightarrow>
          (let calls = map finalize_call items
           in Inr (d_events st @ map tool_use_stop calls @ [complete (stream_response st calls)])))"

definition parse_stream :: "loader \<Rightarrow> string list \<Rightarrow> exn + provider_event list" where
  "parse_stream loads resp =
     (case read_lines loads resp new_decoder of Inl e \<Rightarrow> Inl e | Inr st \<Rightarrow> finalize st)"


section \<open>Folding events into a response\<close>

text \<open>The local variables of \<open>response_from_events\<close> (lines 518 to 521).\<close>

record folder =
  f_response :: "provider_response option"
  f_content :: string
  f_tool_calls_by_id :: "tool_call pydict"
  f_usage :: token_usage

definition new_folder :: folder where
  "new_folder = \<lparr>f_response = None, f_content = [], f_tool_calls_by_id = [], f_usage = no_usage\<rparr>"

definition is_tool_event :: "provider_event \<Rightarrow> bool" where
  "is_tool_event event =
     (ev_type event \<in> set [''tool_use_start'', ''tool_use_delta'', ''tool_use_stop''])"

text \<open>The last \<open>if\<close> of the loop body, which a \<open>continue\<close> skips.\<close>

definition fold_complete :: "provider_event \<Rightarrow> folder \<Rightarrow> folder" where
  "fold_complete event st =
     (if ev_type event = ''complete''
      then (case ev_response event of
              Some r \<Rightarrow> st\<lparr>f_response := Some r, f_usage := pr_usage r\<rparr>
            | None \<Rightarrow> st)
      else st)"

definition fold_tool_call :: "tool_call \<Rightarrow> folder \<Rightarrow> exn + folder" where
  "fold_tool_call tc st =
     (case as_key (tc_id tc) of Inl e \<Rightarrow> Inl e | Inr k \<Rightarrow>
      let current = (case dict_get (f_tool_calls_by_id st) k of
                       None \<Rightarrow> \<lparr>tc_id = tc_id tc, tc_name = JStr [], tc_arguments = JStr []\<rparr>
                     | Some c \<Rightarrow> c);
          current1 = (if truthy (tc_name tc) then current\<lparr>tc_name := tc_name tc\<rparr> else current);
          current2 = (if truthy (tc_arguments tc) then current1\<lparr>tc_arguments := tc_arguments tc\<rparr>
                      else current1)
      in Inr (st\<lparr>f_tool_calls_by_id := dict_put (f_tool_calls_by_id st) k current2\<rparr>))"

definition fold_event :: "provider_event \<Rightarrow> folder \<Rightarrow> exn + folder" where
  "fold_event event st =
     (let st1 = (if ev_type event = ''content_delta''
                 then st\<lparr>f_content := f_content st @ ev_content event\<rparr> else st)
      in case (if is_tool_event event then ev_tool_call event else None) of
           Some tc \<Rightarrow>
             if \<not> truthy (tc_id tc) then Inr st1
             else (case fold_tool_call tc st1 of
                     Inl e \<Rightarrow> Inl e
                   | Inr st2 \<Rightarrow> Inr (fold_complete event st2))
         | None \<Rightarrow> Inr (fold_complete event st1))"

definition response_from_events :: "provider_event list \<Rightarrow> exn + provider_response" where
  "response_from_events events =
     (case efold fold_event events new_folder of
        Inl e \<Rightarrow> Inl e
      | Inr st \<Rightarrow>
          (case f_response st of
             Some r \<Rightarrow> Inr r
           | None \<Rightarrow>
               Inr \<lparr>pr_message = [(''content'', JStr (f_content st))],
                    pr_tool_calls = map snd (f_tool_calls_by_id st),
                    pr_raw = JObj [],
                    pr_usage = f_usage st\<rparr>))"

section \<open>The unary response\<close>

text \<open>\<open>x[k]\<close> with a string \<open>k\<close>, and \<open>x[0]\<close>.\<close>

fun py_item :: "json \<Rightarrow> string \<Rightarrow> exn + json" where
  "py_item (JObj kvs) k = (case map_of kvs k of None \<Rightarrow> Inl KeyError | Some v \<Rightarrow> Inr v)"
| "py_item _ k = Inl TypeError"

fun py_first :: "json \<Rightarrow> exn + json" where
  "py_first (JArr xs) = (case xs of [] \<Rightarrow> Inl IndexError | x # _ \<Rightarrow> Inr x)"
| "py_first (JStr s) = (case s of [] \<Rightarrow> Inl IndexError | c # _ \<Rightarrow> Inr (JStr [c]))"
| "py_first (JObj kvs) = Inl KeyError"
| "py_first _ = Inl TypeError"

text \<open>\<open>_parse_tool_calls\<close> (lines 281 to 293).\<close>

definition parse_tool_call :: "json \<Rightarrow> exn + tool_call" where
  "parse_tool_call call =
     (case py_get call ''function'' of Inl e \<Rightarrow> Inl e | Inr f \<Rightarrow>
      let function = or_empty_dict f in
      case py_get_default call ''id'' (JStr []) of Inl e \<Rightarrow> Inl e | Inr i \<Rightarrow>
      case py_get_default function ''name'' (JStr []) of Inl e \<Rightarrow> Inl e | Inr n \<Rightarrow>
      case py_get_default function ''arguments'' (JStr ''{}'') of Inl e \<Rightarrow> Inl e | Inr a \<Rightarrow>
      Inr \<lparr>tc_id = i, tc_name = n, tc_arguments = a\<rparr>)"

definition parse_tool_calls :: "json \<Rightarrow> exn + tool_call list" where
  "parse_tool_calls assistant_msg =
     (case py_get assistant_msg ''tool_calls'' of Inl e \<Rightarrow> Inl e | Inr raw_calls \<Rightarrow>
      case py_iter_or_empty raw_calls of Inl e \<Rightarrow> Inl e | Inr calls \<Rightarrow>
      emap parse_tool_call calls)"

text \<open>\<open>extract_token_usage\<close> (lines 459 to 470).\<close>

definition extract_token_usage :: "json \<Rightarrow> exn + token_usage" where
  "extract_token_usage result =
     (case (case result of JObj r \<Rightarrow> (case map_of r ''usage'' of None \<Rightarrow> JNull | Some u \<Rightarrow> u)
            | _ \<Rightarrow> JNull) of
        JObj u \<Rightarrow> usage_of_dict u
      | _ \<Rightarrow> Inr no_usage)"

text \<open>
  \<open>OpenAICompatibleProvider.request\<close> after the network (lines 298 to 302). The message
  of a response that gets this far is a dictionary: \<open>_parse_tool_calls\<close> has called its
  \<open>get\<close>.
\<close>

definition response_of_result :: "json \<Rightarrow> exn + provider_response" where
  "response_of_result result =
     (case py_item result ''choices'' of Inl e \<Rightarrow> Inl e | Inr choices \<Rightarrow>
      case py_first choices of Inl e \<Rightarrow> Inl e | Inr choice \<Rightarrow>
      case py_item choice ''message'' of Inl e \<Rightarrow> Inl e | Inr assistant_msg \<Rightarrow>
      case parse_tool_calls assistant_msg of Inl e \<Rightarrow> Inl e | Inr calls \<Rightarrow>
      case extract_token_usage result of Inl e \<Rightarrow> Inl e | Inr u \<Rightarrow>
      case assistant_msg of
        JObj m \<Rightarrow> Inr \<lparr>pr_message = m, pr_tool_calls = calls, pr_raw = result, pr_usage = u\<rparr>
      | _ \<Rightarrow> Inl AttributeError)"

text \<open>
  The two operations of the provider, from the responses of the network to the
  aggregated response: \<open>request\<close> (with \<open>_request_with_retries\<close>, whose \<open>try\<close> reads
  and decodes the body), and \<open>stream\<close> followed by \<open>response_from_events\<close>, as the
  conversation loop calls them. The sleeps and the attempts are dropped here.
\<close>

definition provider_request ::
  "loader \<Rightarrow> (nat \<Rightarrow> exn + string) \<Rightarrow> (nat \<Rightarrow> rat) \<Rightarrow> exn + provider_response" where
  "provider_request loads urlopen uniform =
     (case snd (snd (retry_loop loads urlopen uniform [] 0)) of
        Inl e \<Rightarrow> Inl e
      | Inr result \<Rightarrow> response_of_result result)"

definition provider_stream ::
  "loader \<Rightarrow> (nat \<Rightarrow> exn + string list) \<Rightarrow> (nat \<Rightarrow> rat) \<Rightarrow> exn + provider_event list" where
  "provider_stream loads urlopen uniform =
     snd (snd (retry_loop (parse_stream loads) urlopen uniform [] 0))"

definition provider_stream_response ::
  "loader \<Rightarrow> (nat \<Rightarrow> exn + string list) \<Rightarrow> (nat \<Rightarrow> rat) \<Rightarrow> exn + provider_response" where
  "provider_stream_response loads urlopen uniform =
     (case provider_stream loads urlopen uniform of
        Inl e \<Rightarrow> Inl e
      | Inr events \<Rightarrow> response_from_events events)"


section \<open>Properties of the stream decoder\<close>

lemma read_lines_skip:
  assumes "startswith (strip line) ''data:''"
    and "strip (drop 5 (strip line)) \<noteq> ''[DONE]''"
    and "loads (strip (drop 5 (strip line))) = Inl e"
  shows "read_lines loads (line # rest) st = read_lines loads rest st"
proof -
  from assms(1) have "strip line \<noteq> []" by (auto simp: startswith_def)
  moreover from this have "line \<noteq> []" by (auto simp: strip_def)
  ultimately show ?thesis using assms by simp
qed

lemma read_lines_remove:
  assumes "startswith (strip line) ''data:''"
    and "strip (drop 5 (strip line)) \<noteq> ''[DONE]''"
    and "loads (strip (drop 5 (strip line))) = Inl e"
  shows "read_lines loads (pre @ line # post) st = read_lines loads (pre @ post) st"
proof (induction pre arbitrary: st)
  case Nil
  show ?case using read_lines_skip[where loads=loads and line=line, OF assms] by simp
next
  case (Cons l pre)
  show ?case by (simp add: Cons.IH split: sum.splits)
qed

text \<open>
  C10. A data line whose payload is not the sentinel and that the JSON reader rejects
  leaves the decoder as it was: no event, no exception. The events decoded from an input,
  and the response folded from them, are those of the input without the line.
\<close>

theorem malformed_data_line_skipped:
  assumes "startswith (strip line) ''data:''"
    and "strip (drop 5 (strip line)) \<noteq> ''[DONE]''"
    and "loads (strip (drop 5 (strip line))) = Inl e"
  shows "read_lines loads (line # rest) st = read_lines loads rest st
    \<and> parse_stream loads (pre @ line # post) = parse_stream loads (pre @ post)
    \<and> (case parse_stream loads (pre @ line # post) of
          Inl x \<Rightarrow> Inl x | Inr events \<Rightarrow> response_from_events events)
        = (case parse_stream loads (pre @ post) of
          Inl x \<Rightarrow> Inl x | Inr events \<Rightarrow> response_from_events events)"
  using read_lines_skip[where loads=loads and line=line, OF assms, of rest st]
    read_lines_remove[where loads=loads and line=line, OF assms, of pre post new_decoder]
  by (simp add: parse_stream_def)


lemmas json_eval =
  json_loads_def tokens_def lex_default_def is_json_ws_def is_digit_def is_lower_def
  close_obj_def close_arr_def begin_value_def read_key_def num_tok_def word_tok_def
  digit_val_def unescape_def py_json_loads_def

lemmas decoder_eval =
  parse_stream_def strip_def is_space_def startswith_def process_chunk_def py_get_def
  process_choice_def has_key_def or_empty_dict_def take_content_def process_tool_fragment_def
  new_decoder_def new_slot_def take_id_def take_name_def take_arguments_def emit_def key_eq_def
  finalize_def sorted_items_def Let_def finalize_call_def stream_response_def content_delta_def
  tool_use_start_def tool_use_delta_def tool_use_stop_def complete_def no_usage_def

definition hi_line :: string where
  "hi_line = ''data: {\"choices\":[{\"delta\":{\"content\":\"Hi\"}}]}\<newline>''"

lemma hi_line_decoded:
  "parse_stream py_json_loads [hi_line] =
     Inr [content_delta ''Hi'',
          complete \<lparr>pr_message = [(''content'', JStr ''Hi'')], pr_tool_calls = [],
                    pr_raw = JObj [(''finish_reason'', JStr [])], pr_usage = no_usage\<rparr>]"
  by (simp add: hi_line_def json_eval decoder_eval)

theorem malformed_data_line_skipped_witness:
  "startswith (strip ''data: {oops\<newline>'') ''data:''
   \<and> strip (drop 5 (strip ''data: {oops\<newline>'')) \<noteq> ''[DONE]''
   \<and> py_json_loads (strip (drop 5 (strip ''data: {oops\<newline>''))) = Inl JSONDecodeError
   \<and> parse_stream py_json_loads ([] @ ''data: {oops\<newline>'' # [hi_line]) =
       Inr [content_delta ''Hi'',
            complete \<lparr>pr_message = [(''content'', JStr ''Hi'')], pr_tool_calls = [],
                      pr_raw = JObj [(''finish_reason'', JStr [])], pr_usage = no_usage\<rparr>]"
proof -
  have a: "startswith (strip ''data: {oops\<newline>'') ''data:''"
    by (simp add: startswith_def strip_def is_space_def)
  have b: "strip (drop 5 (strip ''data: {oops\<newline>'')) \<noteq> ''[DONE]''"
    by (simp add: strip_def is_space_def)
  have c: "py_json_loads (strip (drop 5 (strip ''data: {oops\<newline>''))) = Inl JSONDecodeError"
    by (simp add: strip_def is_space_def json_eval)
  from malformed_data_line_skipped[where loads=py_json_loads, OF a b c, of "[]" new_decoder "[]" "[hi_line]"]
  have "parse_stream py_json_loads ([] @ ''data: {oops\<newline>'' # [hi_line]) =
        parse_stream py_json_loads ([] @ [hi_line])"
    by simp
  with a b c show ?thesis by (simp add: hi_line_decoded)
qed

subsection \<open>Tool-call fragments\<close>































subsection \<open>What the reading loop keeps true\<close>






lemma efold_invariant:
  assumes "\<And>x s s'. P s \<Longrightarrow> f x s = Inr s' \<Longrightarrow> P s'"
  shows "P s \<Longrightarrow> efold f xs s = Inr s' \<Longrightarrow> P s'"
proof (induction xs arbitrary: s)
  case Nil
  then show ?case by simp
next
  case (Cons x xs)
  from Cons.prems(2) obtain s1 where s1: "f x s = Inr s1" and r: "efold f xs s1 = Inr s'"
    by (auto split: sum.splits)
  from assms[OF Cons.prems(1) s1] have "P s1" .
  from Cons.IH[OF this r] show ?case .
qed
















text \<open>Content and tool-call fragments leave the finish reason and the usage alone.\<close>

definition same_meta :: "decoder \<Rightarrow> decoder \<Rightarrow> bool" where
  "same_meta st st' = (d_finish_reason st' = d_finish_reason st \<and> d_usage st' = d_usage st)"

lemma same_meta_tool_fragment:
  assumes "same_meta st0 st" "process_tool_fragment tc st = Inr st'"
  shows "same_meta st0 st'"
proof -
  from assms(2) obtain idx tid func fname fargs c' st2 where
    ta: "take_arguments func fargs
           (take_name fname (take_id tid
              (case dict_get (d_tool_calls_by_index st) idx of None \<Rightarrow> new_slot | Some c \<Rightarrow> c, st)))
         = Inr (c', st2)"
    and st': "st' = st2\<lparr>d_tool_calls_by_index := dict_put (d_tool_calls_by_index st2) idx c'\<rparr>"
    by (auto simp: process_tool_fragment_def Let_def split: sum.splits prod.splits)
  have a: "same_meta st0 (snd (take_id tid (c, st)))" for c
    using assms(1) by (simp add: take_id_def Let_def emit_def same_meta_def)
  have b: "same_meta st0 (snd cs) \<Longrightarrow> same_meta st0 (snd (take_name fname cs))" for cs
    by (cases cs) (simp add: take_name_def Let_def emit_def same_meta_def)
  have c: "same_meta st0 (snd cs) \<Longrightarrow> take_arguments func fargs cs = Inr cs' \<Longrightarrow>
      same_meta st0 (snd cs')" for cs cs'
    by (cases cs)
       (auto simp: take_arguments_def Let_def emit_def same_meta_def split: if_splits json.splits)
  from c[OF b[OF a] ta] have "same_meta st0 st2" by simp
  then show ?thesis by (simp add: st' same_meta_def)
qed

lemma same_meta_fragments:
  assumes "same_meta st0 st" "efold process_tool_fragment frags st = Inr st'"
  shows "same_meta st0 st'"
proof -
  have "\<And>x s s'. same_meta st0 s \<Longrightarrow> process_tool_fragment x s = Inr s' \<Longrightarrow> same_meta st0 s'"
    by (rule same_meta_tool_fragment)
  from efold_invariant[of "same_meta st0" process_tool_fragment, OF this assms] show ?thesis .
qed

lemma same_meta_take_content: "take_content dc st = Inr st' \<Longrightarrow> same_meta st st'"
  by (auto simp: take_content_def emit_def same_meta_def split: if_splits json.splits)

lemma choice_finish_reason:
  assumes "process_choice choice st = Inr st'"
  shows "\<exists>r. py_get choice ''finish_reason'' = Inr r
     \<and> d_finish_reason st' = (if truthy r then r else d_finish_reason st)
     \<and> d_usage st' = d_usage st"
proof -
  from assms obtain dv where dv: "py_get choice ''delta'' = Inr dv"
    by (auto simp: process_choice_def split: sum.splits)
  from assms dv obtain dc where dc: "py_get (or_empty_dict dv) ''content'' = Inr dc"
    by (auto simp: process_choice_def Let_def split: sum.splits)
  from assms dv dc obtain st1 where c: "take_content dc st = Inr st1"
    by (auto simp: process_choice_def Let_def split: sum.splits)
  from assms dv dc c obtain st2 where
    t0: "(if has_key (or_empty_dict dv) ''tool_calls''
          then (case py_get (or_empty_dict dv) ''tool_calls'' of Inl e \<Rightarrow> Inl e | Inr tcs \<Rightarrow>
                case py_iter_or_empty tcs of Inl e \<Rightarrow> Inl e | Inr fragments \<Rightarrow>
                efold process_tool_fragment fragments st1)
          else Inr st1) = Inr st2"
    by (simp add: process_choice_def Let_def split: sum.splits)
  from assms dv dc c t0 obtain r where r: "py_get choice ''finish_reason'' = Inr r"
    and f: "st' = (if truthy r then st2\<lparr>d_finish_reason := r\<rparr> else st2)"
    by (simp add: process_choice_def Let_def split: sum.splits)
  from t0 have t: "st2 = st1 \<or> (\<exists>frags. efold process_tool_fragment frags st1 = Inr st2)"
    by (auto split: if_splits sum.splits)
  from same_meta_take_content[OF c] t have "same_meta st st2"
    using same_meta_fragments by blast
  with r f show ?thesis by (auto simp: same_meta_def)
qed

lemma choices_usage:
  assumes "efold process_choice cs st = Inr st'"
  shows "d_usage st' = d_usage st"
proof -
  have "\<And>x s s'. d_usage s = d_usage st \<Longrightarrow> process_choice x s = Inr s' \<Longrightarrow> d_usage s' = d_usage st"
    using choice_finish_reason by fastforce
  from efold_invariant[of "\<lambda>s. d_usage s = d_usage st" process_choice, OF this refl assms]
  show ?thesis .
qed

lemma usage_add_no_usage: "usage_add u no_usage = u"
  by (simp add: usage_add_def no_usage_def)

lemma chunk_usage:
  assumes "process_chunk chunk st = Inr st'"
  shows "\<exists>u. extract_token_usage chunk = Inr u \<and> d_usage st' = usage_add (d_usage st) u"
proof -
  from assms obtain kvs where chunk: "chunk = JObj kvs"
    by (cases chunk) (auto simp: process_chunk_def py_get_def)
  from assms obtain st1 cs where
    u: "(case (case map_of kvs ''usage'' of None \<Rightarrow> JNull | Some v \<Rightarrow> v) of
              JObj u \<Rightarrow> (case usage_of_dict u of
                            Inl e \<Rightarrow> Inl e
                          | Inr tu \<Rightarrow> Inr (st\<lparr>d_usage := usage_add (d_usage st) tu\<rparr>))
            | _ \<Rightarrow> Inr st) = Inr st1"
    and c: "efold process_choice cs st1 = Inr st'"
    by (auto simp: process_chunk_def py_get_def chunk split: sum.splits)
  from u have "\<exists>tu. extract_token_usage chunk = Inr tu \<and> d_usage st1 = usage_add (d_usage st) tu"
    by (auto simp: extract_token_usage_def chunk usage_add_no_usage split: json.splits sum.splits)
  with choices_usage[OF c] show ?thesis by simp
qed















lemma str_int_digits: "str_int 0 = ''0''" "str_int 1 = ''1''" "str_int 2 = ''2''"
  by code_simp+





section \<open>The conversation loop\<close>

text \<open>\<open>build_assistant_message\<close> (lines 497 to 514).\<close>

definition call_json :: "tool_call \<Rightarrow> json" where
  "call_json call =
     JObj [(''id'', tc_id call), (''type'', JStr ''function''),
           (''function'', JObj [(''name'', tc_name call), (''arguments'', tc_arguments call)])]"

definition build_assistant_message :: "dict \<Rightarrow> tool_call list \<Rightarrow> json" where
  "build_assistant_message assistant_msg calls =
     JObj ([(''role'', JStr ''assistant'')]
           @ (case map_of assistant_msg ''content'' of
                None \<Rightarrow> [] | Some JNull \<Rightarrow> [] | Some c \<Rightarrow> [(''content'', c)])
           @ (if calls \<noteq> [] then [(''tool_calls'', JArr (map call_json calls))] else []))"

text \<open>
  The provider, as the loop sees it: \<open>provider.request\<close> and \<open>provider.stream\<close> on the
  history, at a given step (the tool schema is the same at every step). The instances
  above are \<open>provider_request\<close> and \<open>provider_stream\<close> on the responses of the network.
\<close>

record provider =
  p_request :: "int \<Rightarrow> json list \<Rightarrow> exn + provider_response"
  p_stream :: "int \<Rightarrow> json list \<Rightarrow> exn + provider_event list"

text \<open>
  What the run writes: the final answer on the standard output, and on the standard error
  the dumps of every request and reply, the failure of a provider call, the usage line
  and the notice that the steps are used up. The entries stand for the printed lines;
  the cost, a floating-point number, is left out of the usage line.
\<close>

datatype diag =
    LlmInput int "json list"
  | LlmReply int dict "tool_call list"
  | LlmRequestFailed exn
  | TokenUsageLine int int int
  | MaxStepsReached

record agent =
  a_client :: tool_server_client
  a_messages :: "json list"
  a_total_usage :: token_usage
  a_stdout :: "json list"
  a_stderr :: "diag list"

datatype outcome = Returned int | Raised exn | RaisedByTool tool_exn

text \<open>The name of a value's type, as the text of an \<open>AttributeError\<close> has it.\<close>

fun py_type_name :: "json \<Rightarrow> string" where
  "py_type_name JNull = ''NoneType''"
| "py_type_name (JBool b) = ''bool''"
| "py_type_name (JInt n) = ''int''"
| "py_type_name (JStr s) = ''str''"
| "py_type_name (JArr xs) = ''list''"
| "py_type_name (JObj kvs) = ''dict''"

text \<open>
  The body of the \<open>try\<close> of one tool call (lines 627 and 628): the call, then
  \<open>result.get("content", "")\<close>.
\<close>

definition result_content :: "json \<Rightarrow> tool_exn + json" where
  "result_content result =
     (case result of
        JObj d \<Rightarrow> Inr (case map_of d ''content'' of None \<Rightarrow> JStr [] | Some v \<Rightarrow> v)
      | _ \<Rightarrow> Inl (NoAttributeGet (py_type_name result)))"

definition try_call_tool ::
  "tool_server_client \<Rightarrow> json \<Rightarrow> dict \<Rightarrow> (tool_exn + json) \<times> tool_server_client" where
  "try_call_tool client name args_obj =
     (case call_tool client name args_obj of
        (Inl e, client') \<Rightarrow> (Inl e, client')
      | (Inr result, client') \<Rightarrow> (result_content result, client'))"

definition tool_message :: "tool_call \<Rightarrow> json \<Rightarrow> json" where
  "tool_message call tool_content =
     JObj [(''role'', JStr ''tool''), (''tool_call_id'', tc_id call), (''name'', tc_name call),
           (''content'', tool_content)]"

text \<open>One round of the loop over \<open>response.tool_calls\<close> (lines 620 to 639).\<close>

definition dispatch_call :: "loader \<Rightarrow> tool_call \<Rightarrow> agent \<Rightarrow> exn + agent" where
  "dispatch_call loads call st =
     (case normalize_arguments loads (tc_arguments call) of
        Inl e \<Rightarrow> Inl e
      | Inr args_obj \<Rightarrow>
          (case try_call_tool (a_client st) (tc_name call) args_obj of
             (r, client') \<Rightarrow>
               (let tool_content =
                      (case r of
                         Inl e \<Rightarrow> JStr (''tool call failed: '' @ exn_text e)
                       | Inr v \<Rightarrow> v)
                in Inr (st\<lparr>a_client := client',
                           a_messages := a_messages st @ [tool_message call tool_content]\<rparr>))))"

text \<open>The usage line, printed in both places under the same test (lines 606 and 642).\<close>

definition usage_report :: "token_usage \<Rightarrow> diag list" where
  "usage_report u =
     (if total_tokens u > 0
      then [TokenUsageLine (input_tokens u) (output_tokens u) (total_tokens u)] else [])"

text \<open>One call of the provider (lines 576 to 580).\<close>

definition call_provider ::
  "provider \<Rightarrow> bool \<Rightarrow> int \<Rightarrow> json list \<Rightarrow> exn + provider_response" where
  "call_provider prov stream_enabled step_index messages =
     (if stream_enabled
      then (case p_stream prov step_index messages of
              Inl e \<Rightarrow> Inl e
            | Inr events \<Rightarrow> response_from_events events)
      else p_request prov step_index messages)"

text \<open>
  The \<open>for\<close> loop over the steps (lines 572 to 639) and what follows it (lines 641 to
  654); the first argument counts the steps that are left.
\<close>

fun agent_steps ::
  "loader \<Rightarrow> provider \<Rightarrow> bool \<Rightarrow> nat \<Rightarrow> int \<Rightarrow> agent \<Rightarrow> outcome \<times> agent" where
  "agent_steps loads prov stream_enabled 0 step_index st =
     (Returned 1,
      st\<lparr>a_stderr := a_stderr st @ [MaxStepsReached] @ usage_report (a_total_usage st)\<rparr>)"
| "agent_steps loads prov stream_enabled (Suc n) step_index st =
     (let st1 = st\<lparr>a_stderr := a_stderr st @ [LlmInput step_index (a_messages st)]\<rparr>
      in case call_provider prov stream_enabled step_index (a_messages st) of
           Inl e \<Rightarrow> (Returned 1, st1\<lparr>a_stderr := a_stderr st1 @ [LlmRequestFailed e]\<rparr>)
         | Inr response \<Rightarrow>
             (let st2 = st1\<lparr>a_stderr := a_stderr st1
                                @ [LlmReply step_index (pr_message response) (pr_tool_calls response)],
                             a_messages := a_messages st1
                                @ [build_assistant_message (pr_message response) (pr_tool_calls response)],
                             a_total_usage := usage_add (a_total_usage st1) (pr_usage response)\<rparr>
              in if pr_tool_calls response = []
                 then (let c = (case map_of (pr_message response) ''content'' of
                                  None \<Rightarrow> JNull | Some v \<Rightarrow> v)
                       in (Returned 0,
                           st2\<lparr>a_stdout := a_stdout st2 @ (if truthy c then [c] else []),
                               a_stderr := a_stderr st2 @ usage_report (a_total_usage st2)\<rparr>))
                 else (case efold (dispatch_call loads) (pr_tool_calls response) st2 of
                         Inl e \<Rightarrow> (Raised e, st2)
                       | Inr st3 \<Rightarrow> agent_steps loads prov stream_enabled n (step_index + 1) st3)))"

text \<open>
  \<open>run_agent\<close> (lines 545 to 654). \<open>system_prompt_of\<close> stands for lines 556 to 564: from
  the tool list it builds the schema for the provider, resolves the model and the
  provider, and writes the system prompt; it raises when the tool list is not a list of
  dictionaries or the provider is unknown.
\<close>

definition run_agent ::
  "loader \<Rightarrow> provider \<Rightarrow> (json \<Rightarrow> exn + string) \<Rightarrow> tool_server_client \<Rightarrow> string \<Rightarrow> bool \<Rightarrow> int
     \<Rightarrow> outcome \<times> agent" where
  "run_agent loads prov system_prompt_of client prompt stream_enabled max_steps =
     (case list_tools client of (r, client') \<Rightarrow>
        (let st0 = \<lparr>a_client = client', a_messages = [], a_total_usage = no_usage,
                    a_stdout = [], a_stderr = []\<rparr>
         in case r of
              Inl e \<Rightarrow> (RaisedByTool e, st0)
            | Inr tools \<Rightarrow>
                (case system_prompt_of tools of
                   Inl e \<Rightarrow> (Raised e, st0)
                 | Inr system_prompt \<Rightarrow>
                     agent_steps loads prov stream_enabled (nat max_steps) 1
                       (st0\<lparr>a_messages :=
                              [JObj [(''role'', JStr ''system''), (''content'', JStr system_prompt)],
                               JObj [(''role'', JStr ''user''), (''content'', JStr prompt)]]\<rparr>))))"


subsection \<open>Tool calls of one step\<close>

lemma normalize_arguments_returns: "\<exists>d. normalize_arguments loads a = Inr d"
  by (cases a)
     (auto simp: normalize_arguments_def normalize_arguments_try_def
           split: sum.splits option.splits json.splits)

lemma try_call_tool_stdin:
  "proc_stdin (snd (try_call_tool c name args)) =
     proc_stdin c @ [\<lparr>req_id = str_int (next_id c), req_method = ''call_tool'',
                      req_params = JObj [(''name'', name), (''input'', JObj args)]\<rparr>]"
proof -
  have "snd (try_call_tool c name args) = snd (call_tool c name args)"
    by (simp add: try_call_tool_def split: prod.splits sum.splits)
  then show ?thesis
    by (simp add: call_tool_def request_stdin or_empty_dict_def)
qed

lemma dispatch_call_result:
  "\<exists>args_obj. normalize_arguments loads (tc_arguments call) = Inr args_obj
     \<and> dispatch_call loads call st =
         Inr (st\<lparr>a_client := snd (try_call_tool (a_client st) (tc_name call) args_obj),
                 a_messages := a_messages st @
                   [tool_message call
                      (case fst (try_call_tool (a_client st) (tc_name call) args_obj) of
                         Inl e \<Rightarrow> JStr (''tool call failed: '' @ exn_text e)
                       | Inr v \<Rightarrow> v)]\<rparr>)"
proof -
  from normalize_arguments_returns obtain d where d: "normalize_arguments loads (tc_arguments call) = Inr d"
    by blast
  show ?thesis
    by (rule exI[of _ d]) (simp add: d dispatch_call_def Let_def split: prod.splits)
qed

text \<open>The messages of a round: one per call, in the order of the calls.\<close>

definition tool_messages :: "tool_call list \<Rightarrow> json list \<Rightarrow> json list" where
  "tool_messages calls contents = map (\<lambda>(call, c). tool_message call c) (zip calls contents)"

lemma dispatch_calls_result:
  "\<exists>st' contents. efold (dispatch_call loads) calls st = Inr st'
     \<and> length contents = length calls
     \<and> a_messages st' = a_messages st @ tool_messages calls contents
     \<and> a_stdout st' = a_stdout st \<and> a_stderr st' = a_stderr st
     \<and> a_total_usage st' = a_total_usage st
     \<and> map req_method (proc_stdin (a_client st')) =
         map req_method (proc_stdin (a_client st)) @ replicate (length calls) ''call_tool''"
proof (induction calls arbitrary: st)
  case Nil
  show ?case by (simp add: tool_messages_def)
next
  case (Cons call calls)
  from dispatch_call_result[of loads call st] obtain args_obj st1 c where
    st1: "dispatch_call loads call st = Inr st1"
    and m: "a_messages st1 = a_messages st @ [tool_message call c]"
    and o: "a_stdout st1 = a_stdout st" "a_stderr st1 = a_stderr st"
      "a_total_usage st1 = a_total_usage st"
    and cl: "a_client st1 = snd (try_call_tool (a_client st) (tc_name call) args_obj)"
    by auto
  from Cons.IH[of st1] obtain st' contents where
    r: "efold (dispatch_call loads) calls st1 = Inr st'"
    and l: "length contents = length calls"
    and m': "a_messages st' = a_messages st1 @ tool_messages calls contents"
    and o': "a_stdout st' = a_stdout st1" "a_stderr st' = a_stderr st1"
      "a_total_usage st' = a_total_usage st1"
    and s': "map req_method (proc_stdin (a_client st')) =
         map req_method (proc_stdin (a_client st1)) @ replicate (length calls) ''call_tool''"
    by blast
  have "map req_method (proc_stdin (a_client st')) =
         map req_method (proc_stdin (a_client st)) @ replicate (length (call # calls)) ''call_tool''"
    by (simp add: s' cl try_call_tool_stdin)
  moreover have "a_messages st' = a_messages st @ tool_messages (call # calls) (c # contents)"
    by (simp add: m' m tool_messages_def)
  ultimately show ?case
    using st1 r l o o' by (intro exI[of _ st'] exI[of _ "c # contents"]) simp
qed

lemma step_with_tool_calls:
  assumes "call_provider prov stream_enabled step_index (a_messages st) = Inr response"
    and "pr_tool_calls response \<noteq> []"
  shows "\<exists>st3 contents.
      agent_steps loads prov stream_enabled (Suc n) step_index st =
        agent_steps loads prov stream_enabled n (step_index + 1) st3
    \<and> length contents = length (pr_tool_calls response)
    \<and> a_messages st3 = a_messages st
        @ [build_assistant_message (pr_message response) (pr_tool_calls response)]
        @ tool_messages (pr_tool_calls response) contents
    \<and> a_stdout st3 = a_stdout st
    \<and> a_stderr st3 = a_stderr st @ [LlmInput step_index (a_messages st),
          LlmReply step_index (pr_message response) (pr_tool_calls response)]
    \<and> a_total_usage st3 = usage_add (a_total_usage st) (pr_usage response)
    \<and> map req_method (proc_stdin (a_client st3)) =
         map req_method (proc_stdin (a_client st))
         @ replicate (length (pr_tool_calls response)) ''call_tool''"
proof -
  define st2 where "st2 = st\<lparr>a_stderr := a_stderr st @ [LlmInput step_index (a_messages st),
          LlmReply step_index (pr_message response) (pr_tool_calls response)],
      a_messages := a_messages st
          @ [build_assistant_message (pr_message response) (pr_tool_calls response)],
      a_total_usage := usage_add (a_total_usage st) (pr_usage response)\<rparr>"
  from dispatch_calls_result[of loads "pr_tool_calls response" st2] obtain st3 contents where
    r: "efold (dispatch_call loads) (pr_tool_calls response) st2 = Inr st3"
    and p: "length contents = length (pr_tool_calls response)"
      "a_messages st3 = a_messages st2 @ tool_messages (pr_tool_calls response) contents"
      "a_stdout st3 = a_stdout st2" "a_stderr st3 = a_stderr st2"
      "a_total_usage st3 = a_total_usage st2"
      "map req_method (proc_stdin (a_client st3)) =
         map req_method (proc_stdin (a_client st2))
         @ replicate (length (pr_tool_calls response)) ''call_tool''"
    by blast
  have "agent_steps loads prov stream_enabled (Suc n) step_index st =
        agent_steps loads prov stream_enabled n (step_index + 1) st3"
    using assms r by (simp add: Let_def st2_def)
  with p show ?thesis
    by (intro exI[of _ st3] exI[of _ contents]) (simp add: st2_def)
qed


text \<open>
  C5. The dispatch of a tool call never raises, whatever the tool channel does: it
  appends exactly one tool-role message with the call's id and name, whose content is
  the tool's content, or \<open>tool call failed: \<close> followed by the text of the exception
  when the call or the reading of its result raised. A round appends one such message
  per call, in the order of the calls, and touches neither the output nor the usage;
  after a reply with tool calls the loop goes on to the next step with these messages
  in the history.
\<close>

theorem tool_failure_becomes_message:
  "(\<exists>args_obj. normalize_arguments loads (tc_arguments call) = Inr args_obj
      \<and> dispatch_call loads call st =
          Inr (st\<lparr>a_client := snd (try_call_tool (a_client st) (tc_name call) args_obj),
                  a_messages := a_messages st @
                    [tool_message call
                       (case fst (try_call_tool (a_client st) (tc_name call) args_obj) of
                          Inl e \<Rightarrow> JStr (''tool call failed: '' @ exn_text e)
                        | Inr v \<Rightarrow> v)]\<rparr>))
   \<and> (\<exists>st' contents. efold (dispatch_call loads) calls st = Inr st'
         \<and> length contents = length calls
         \<and> a_messages st' = a_messages st @ tool_messages calls contents
         \<and> a_stdout st' = a_stdout st \<and> a_stderr st' = a_stderr st
         \<and> a_total_usage st' = a_total_usage st)
   \<and> (call_provider prov stream_enabled step_index (a_messages st) = Inr response
        \<and> pr_tool_calls response \<noteq> [] \<longrightarrow>
       (\<exists>st3 contents.
          agent_steps loads prov stream_enabled (Suc n) step_index st =
            agent_steps loads prov stream_enabled n (step_index + 1) st3
        \<and> length contents = length (pr_tool_calls response)
        \<and> a_messages st3 = a_messages st
            @ [build_assistant_message (pr_message response) (pr_tool_calls response)]
            @ tool_messages (pr_tool_calls response) contents))
   \<and> tool_message call c =
        JObj [(''role'', JStr ''tool''), (''tool_call_id'', tc_id call), (''name'', tc_name call),
              (''content'', c)]"
proof -
  have a: "\<exists>st' contents. efold (dispatch_call loads) calls st = Inr st'
         \<and> length contents = length calls
         \<and> a_messages st' = a_messages st @ tool_messages calls contents
         \<and> a_stdout st' = a_stdout st \<and> a_stderr st' = a_stderr st
         \<and> a_total_usage st' = a_total_usage st"
    using dispatch_calls_result[of loads calls st] by blast
  have b: "call_provider prov stream_enabled step_index (a_messages st) = Inr response
        \<and> pr_tool_calls response \<noteq> [] \<longrightarrow>
       (\<exists>st3 contents.
          agent_steps loads prov stream_enabled (Suc n) step_index st =
            agent_steps loads prov stream_enabled n (step_index + 1) st3
        \<and> length contents = length (pr_tool_calls response)
        \<and> a_messages st3 = a_messages st
            @ [build_assistant_message (pr_message response) (pr_tool_calls response)]
            @ tool_messages (pr_tool_calls response) contents)"
    using step_with_tool_calls[of prov stream_enabled step_index st response loads n] by blast
  show ?thesis
    by (intro conjI dispatch_call_result a b) (simp add: tool_message_def)
qed

text \<open>Providers and tool servers for the scenarios.\<close>

definition ls_request :: "token_usage \<Rightarrow> provider_response" where
  "ls_request u =
     \<lparr>pr_message = [(''role'', JStr ''assistant''), (''content'', JNull)],
      pr_tool_calls = [\<lparr>tc_id = JStr ''call_1'', tc_name = JStr ''ls'', tc_arguments = JStr ''{}''\<rparr>],
      pr_raw = JNull, pr_usage = u\<rparr>"

definition final_answer :: provider_response where
  "final_answer =
     \<lparr>pr_message = [(''role'', JStr ''assistant''), (''content'', JStr ''done'')],
      pr_tool_calls = [], pr_raw = JNull,
      pr_usage = \<lparr>input_tokens = 3, output_tokens = 4, total_tokens = 7\<rparr>\<rparr>"

definition tool_then_answer :: provider where
  "tool_then_answer =
     \<lparr>p_request = (\<lambda>step_index messages.
                     if step_index = 1 then Inr (ls_request no_usage) else Inr final_answer),
      p_stream = (\<lambda>step_index messages. Inl URLError)\<rparr>"

definition always_tool :: "token_usage \<Rightarrow> provider" where
  "always_tool u =
     \<lparr>p_request = (\<lambda>step_index messages. Inr (ls_request u)),
      p_stream = (\<lambda>step_index messages. Inl URLError)\<rparr>"

definition fixed_prompt :: "json \<Rightarrow> exn + string" where
  "fixed_prompt tools = Inr ''sys''"

definition first_history :: "json list" where
  "first_history =
     [JObj [(''role'', JStr ''system''), (''content'', JStr ''sys'')],
      JObj [(''role'', JStr ''user''), (''content'', JStr ''hi'')]]"

definition ls_call_message :: json where
  "ls_call_message =
     JObj [(''role'', JStr ''assistant''),
           (''tool_calls'', JArr [JObj [(''id'', JStr ''call_1''), (''type'', JStr ''function''),
              (''function'', JObj [(''name'', JStr ''ls''), (''arguments'', JStr ''{}'')])]])]"

definition ls_result_message :: "string \<Rightarrow> json" where
  "ls_result_message c =
     JObj [(''role'', JStr ''tool''), (''tool_call_id'', JStr ''call_1''), (''name'', JStr ''ls''),
           (''content'', JStr c)]"

lemmas agent_eval =
  run_agent_def list_tools_def call_tool_def try_call_tool_def request_def new_client_def
  reply_ok_def str_int_digits fixed_prompt_def call_provider_def dispatch_call_def
  normalize_arguments_def normalize_arguments_try_def result_content_def tool_message_def
  build_assistant_message_def call_json_def usage_report_def usage_add_def no_usage_def
  or_empty_dict_def Let_def first_history_def ls_call_message_def ls_result_message_def
  ls_request_def final_answer_def tool_then_answer_def always_tool_def

lemma agent_steps_numeral:
  "agent_steps loads prov stream_enabled (numeral k) step_index st =
     agent_steps loads prov stream_enabled (Suc (pred_numeral k)) step_index st"
  by (simp only: numeral_eq_Suc)

lemma loads_empty_object: "py_json_loads ''{}'' = Inr (JObj [])"
  by (simp add: json_eval)

lemma remote_error_run:
  "run_agent py_json_loads tool_then_answer fixed_prompt
      (new_client None [reply_ok ''1'' (JArr []),
                   Reply \<lparr>resp_id = Some ''2'', resp_error = Some ''boom'', resp_result = JNull\<rparr>])
      ''hi'' False 8 =
     (Returned 0,
      \<lparr>a_client = \<lparr>next_id = 3,
           proc_stdin = [\<lparr>req_id = ''1'', req_method = ''list_tools'', req_params = JObj []\<rparr>,
                         \<lparr>req_id = ''2'', req_method = ''call_tool'',
                          req_params = JObj [(''name'', JStr ''ls''), (''input'', JObj [])]\<rparr>],
           proc_stdout = [], proc_reads = None\<rparr>,
       a_messages = first_history @ [ls_call_message, ls_result_message ''tool call failed: boom'',
          JObj [(''role'', JStr ''assistant''), (''content'', JStr ''done'')]],
       a_total_usage = \<lparr>input_tokens = 3, output_tokens = 4, total_tokens = 7\<rparr>,
       a_stdout = [JStr ''done''],
       a_stderr = [LlmInput 1 first_history,
          LlmReply 1 (pr_message (ls_request no_usage)) (pr_tool_calls (ls_request no_usage)),
          LlmInput 2 (first_history @ [ls_call_message, ls_result_message ''tool call failed: boom'']),
          LlmReply 2 (pr_message final_answer) [],
          TokenUsageLine 3 4 7]\<rparr>)"
  by (simp add: agent_eval loads_empty_object agent_steps_numeral del: Suc_numeral)


definition boom_state :: agent where
  "boom_state =
     \<lparr>a_client = \<lparr>next_id = 2, proc_stdin = [],
                   proc_stdout = [Reply \<lparr>resp_id = Some ''2'', resp_error = Some ''boom'',
                                          resp_result = JNull\<rparr>],
                   proc_reads = None\<rparr>,
      a_messages = [], a_total_usage = no_usage, a_stdout = [], a_stderr = []\<rparr>"

theorem tool_failure_becomes_message_witness:
  "call_provider tool_then_answer False 1 (a_messages boom_state) = Inr (ls_request no_usage)
   \<and> pr_tool_calls (ls_request no_usage) \<noteq> []
   \<and> (\<exists>st3 contents.
          agent_steps py_json_loads tool_then_answer False (Suc 0) 1 boom_state =
            agent_steps py_json_loads tool_then_answer False 0 (1 + 1) st3
        \<and> length contents = length (pr_tool_calls (ls_request no_usage))
        \<and> a_messages st3 = a_messages boom_state
            @ [build_assistant_message (pr_message (ls_request no_usage))
                 (pr_tool_calls (ls_request no_usage))]
            @ tool_messages (pr_tool_calls (ls_request no_usage)) contents)
   \<and> dispatch_call py_json_loads
         \<lparr>tc_id = JStr ''call_1'', tc_name = JStr ''ls'', tc_arguments = JStr ''{}''\<rparr> boom_state =
       Inr (boom_state\<lparr>a_client := \<lparr>next_id = 3,
               proc_stdin = [\<lparr>req_id = ''2'', req_method = ''call_tool'',
                          req_params = JObj [(''name'', JStr ''ls''), (''input'', JObj [])]\<rparr>],
               proc_stdout = [], proc_reads = None\<rparr>,
             a_messages := [ls_result_message ''tool call failed: boom'']\<rparr>)"
proof -
  let ?call = "\<lparr>tc_id = JStr ''call_1'', tc_name = JStr ''ls'', tc_arguments = JStr ''{}''\<rparr>"
  have p: "call_provider tool_then_answer False 1 (a_messages boom_state) = Inr (ls_request no_usage)"
    by (simp add: call_provider_def tool_then_answer_def)
  have q: "pr_tool_calls (ls_request no_usage) \<noteq> []"
    by (simp add: ls_request_def)
  note T = tool_failure_becomes_message[of py_json_loads ?call boom_state "[]"
      tool_then_answer False 1 "ls_request no_usage" 0 JNull]
  from T p q have a: "\<exists>st3 contents.
          agent_steps py_json_loads tool_then_answer False (Suc 0) 1 boom_state =
            agent_steps py_json_loads tool_then_answer False 0 (1 + 1) st3
        \<and> length contents = length (pr_tool_calls (ls_request no_usage))
        \<and> a_messages st3 = a_messages boom_state
            @ [build_assistant_message (pr_message (ls_request no_usage))
                 (pr_tool_calls (ls_request no_usage))]
            @ tool_messages (pr_tool_calls (ls_request no_usage)) contents"
    by blast
  from T obtain args_obj where
    n: "normalize_arguments py_json_loads (tc_arguments ?call) = Inr args_obj"
    and d: "dispatch_call py_json_loads ?call boom_state =
          Inr (boom_state\<lparr>a_client := snd (try_call_tool (a_client boom_state) (tc_name ?call) args_obj),
                  a_messages := a_messages boom_state @
                    [tool_message ?call
                       (case fst (try_call_tool (a_client boom_state) (tc_name ?call) args_obj) of
                          Inl e \<Rightarrow> JStr (''tool call failed: '' @ exn_text e)
                        | Inr v \<Rightarrow> v)]\<rparr>)"
    by blast
  from n have "args_obj = []"
    by (simp add: normalize_arguments_def normalize_arguments_try_def loads_empty_object)
  with d have "dispatch_call py_json_loads ?call boom_state =
       Inr (boom_state\<lparr>a_client := \<lparr>next_id = 3,
               proc_stdin = [\<lparr>req_id = ''2'', req_method = ''call_tool'',
                          req_params = JObj [(''name'', JStr ''ls''), (''input'', JObj [])]\<rparr>],
               proc_stdout = [], proc_reads = None\<rparr>,
             a_messages := [ls_result_message ''tool call failed: boom'']\<rparr>)"
    by (simp add: boom_state_def try_call_tool_def call_tool_def request_def str_int_digits
        tool_message_def ls_result_message_def or_empty_dict_def Let_def)
  with p q a show ?thesis by (intro conjI)
qed

subsection \<open>How the loop ends\<close>

lemma step_without_tool_calls:
  assumes "call_provider prov stream_enabled step_index (a_messages st) = Inr response"
    and "pr_tool_calls response = []"
  shows "agent_steps loads prov stream_enabled (Suc n) step_index st =
     (Returned 0,
      st\<lparr>a_stderr := a_stderr st
            @ [LlmInput step_index (a_messages st), LlmReply step_index (pr_message response) []]
            @ usage_report (usage_add (a_total_usage st) (pr_usage response)),
         a_messages := a_messages st @ [build_assistant_message (pr_message response) []],
         a_total_usage := usage_add (a_total_usage st) (pr_usage response),
         a_stdout := a_stdout st
            @ (if truthy (case map_of (pr_message response) ''content'' of
                            None \<Rightarrow> JNull | Some v \<Rightarrow> v)
               then [case map_of (pr_message response) ''content'' of
                       None \<Rightarrow> JNull | Some v \<Rightarrow> v]
               else [])\<rparr>)"
  using assms by (simp add: Let_def)

lemma agent_steps_returns:
  "fst (agent_steps loads prov stream_enabled n step_index st) = Returned 0
   \<or> fst (agent_steps loads prov stream_enabled n step_index st) = Returned 1"
proof (induction n arbitrary: step_index st)
  case 0
  show ?case by simp
next
  case (Suc n)
  show ?case
  proof (cases "call_provider prov stream_enabled step_index (a_messages st)")
    case (Inl e)
    then show ?thesis by (simp add: Let_def)
  next
    case (Inr response)
    show ?thesis
    proof (cases "pr_tool_calls response = []")
      case True
      with Inr show ?thesis by (simp add: Let_def)
    next
      case False
      from step_with_tool_calls[OF Inr False, of loads n] obtain st3 where
        "agent_steps loads prov stream_enabled (Suc n) step_index st =
          agent_steps loads prov stream_enabled n (step_index + 1) st3"
        by blast
      with Suc.IH[of "step_index + 1" st3] show ?thesis by simp
    qed
  qed
qed

lemma budget_of_one:
  assumes "call_provider prov stream_enabled step_index (a_messages st) = Inr response"
    and "pr_tool_calls response \<noteq> []"
  shows "\<exists>st3 contents.
      agent_steps loads prov stream_enabled (Suc 0) step_index st = (Returned 1, st3)
    \<and> length contents = length (pr_tool_calls response)
    \<and> a_messages st3 = a_messages st
        @ [build_assistant_message (pr_message response) (pr_tool_calls response)]
        @ tool_messages (pr_tool_calls response) contents
    \<and> a_stdout st3 = a_stdout st
    \<and> a_stderr st3 = a_stderr st @ [LlmInput step_index (a_messages st),
          LlmReply step_index (pr_message response) (pr_tool_calls response), MaxStepsReached]
          @ usage_report (usage_add (a_total_usage st) (pr_usage response))
    \<and> a_total_usage st3 = usage_add (a_total_usage st) (pr_usage response)
    \<and> map req_method (proc_stdin (a_client st3)) =
         map req_method (proc_stdin (a_client st))
         @ replicate (length (pr_tool_calls response)) ''call_tool''"
proof -
  from step_with_tool_calls[OF assms, of loads 0] obtain st2 contents where
    s: "agent_steps loads prov stream_enabled (Suc 0) step_index st =
        agent_steps loads prov stream_enabled 0 (step_index + 1) st2"
    and p: "length contents = length (pr_tool_calls response)"
      "a_messages st2 = a_messages st
        @ [build_assistant_message (pr_message response) (pr_tool_calls response)]
        @ tool_messages (pr_tool_calls response) contents"
      "a_stdout st2 = a_stdout st"
      "a_stderr st2 = a_stderr st @ [LlmInput step_index (a_messages st),
          LlmReply step_index (pr_message response) (pr_tool_calls response)]"
      "a_total_usage st2 = usage_add (a_total_usage st) (pr_usage response)"
      "map req_method (proc_stdin (a_client st2)) =
         map req_method (proc_stdin (a_client st))
         @ replicate (length (pr_tool_calls response)) ''call_tool''"
    by blast
  show ?thesis
    by (intro exI[of _ "st2\<lparr>a_stderr := a_stderr st2 @ [MaxStepsReached]
          @ usage_report (a_total_usage st2)\<rparr>"] exI[of _ contents])
       (simp only: s, simp add: p)
qed


text \<open>
  The replies that the provider gives in the course of the loop, in their order: the loop
  of \<open>agent_steps\<close> with nothing kept but the replies.
\<close>

fun replies ::
  "loader \<Rightarrow> provider \<Rightarrow> bool \<Rightarrow> nat \<Rightarrow> int \<Rightarrow> agent \<Rightarrow> provider_response list" where
  "replies loads prov stream_enabled 0 step_index st = []"
| "replies loads prov stream_enabled (Suc n) step_index st =
     (let st1 = st\<lparr>a_stderr := a_stderr st @ [LlmInput step_index (a_messages st)]\<rparr>
      in case call_provider prov stream_enabled step_index (a_messages st) of
           Inl e \<Rightarrow> []
         | Inr response \<Rightarrow>
             (let st2 = st1\<lparr>a_stderr := a_stderr st1
                                @ [LlmReply step_index (pr_message response) (pr_tool_calls response)],
                             a_messages := a_messages st1
                                @ [build_assistant_message (pr_message response) (pr_tool_calls response)],
                             a_total_usage := usage_add (a_total_usage st1) (pr_usage response)\<rparr>
              in response #
                 (if pr_tool_calls response = [] then []
                  else (case efold (dispatch_call loads) (pr_tool_calls response) st2 of
                          Inl e \<Rightarrow> []
                        | Inr st3 \<Rightarrow> replies loads prov stream_enabled n (step_index + 1) st3))))"

lemma usage_add_fields:
  "usage_add a b =
     \<lparr>input_tokens = input_tokens a + input_tokens b,
      output_tokens = output_tokens a + output_tokens b,
      total_tokens = total_tokens a + total_tokens b\<rparr>"
  by (simp add: usage_add_def)

lemma run_usage:
  "input_tokens (a_total_usage (snd (agent_steps loads prov stream_enabled n step_index st))) =
     input_tokens (a_total_usage st)
       + sum_list (map (\<lambda>r. input_tokens (pr_usage r)) (replies loads prov stream_enabled n step_index st))
   \<and> output_tokens (a_total_usage (snd (agent_steps loads prov stream_enabled n step_index st))) =
     output_tokens (a_total_usage st)
       + sum_list (map (\<lambda>r. output_tokens (pr_usage r)) (replies loads prov stream_enabled n step_index st))
   \<and> total_tokens (a_total_usage (snd (agent_steps loads prov stream_enabled n step_index st))) =
     total_tokens (a_total_usage st)
       + sum_list (map (\<lambda>r. total_tokens (pr_usage r)) (replies loads prov stream_enabled n step_index st))"
proof (induction n arbitrary: step_index st)
  case 0
  show ?case by simp
next
  case (Suc n)
  show ?case
  proof (cases "call_provider prov stream_enabled step_index (a_messages st)")
    case (Inl e)
    then show ?thesis by (simp add: Let_def)
  next
    case (Inr response)
    show ?thesis
    proof (cases "pr_tool_calls response = []")
      case True
      with Inr show ?thesis by (simp add: Let_def usage_add_def)
    next
      case False
      define st2 where "st2 = st\<lparr>a_stderr := a_stderr st @ [LlmInput step_index (a_messages st),
              LlmReply step_index (pr_message response) (pr_tool_calls response)],
          a_messages := a_messages st
              @ [build_assistant_message (pr_message response) (pr_tool_calls response)],
          a_total_usage := usage_add (a_total_usage st) (pr_usage response)\<rparr>"
      from dispatch_calls_result[of loads "pr_tool_calls response" st2] obtain st3 where
        r: "efold (dispatch_call loads) (pr_tool_calls response) st2 = Inr st3"
        and u: "a_total_usage st3 = a_total_usage st2"
        by blast
      have a: "agent_steps loads prov stream_enabled (Suc n) step_index st =
          agent_steps loads prov stream_enabled n (step_index + 1) st3"
        using Inr False r by (simp add: Let_def st2_def)
      have b: "replies loads prov stream_enabled (Suc n) step_index st =
          response # replies loads prov stream_enabled n (step_index + 1) st3"
        using Inr False r by (simp add: Let_def st2_def)
      from Suc.IH[of "step_index + 1" st3] show ?thesis
        by (simp only: a b) (simp add: u st2_def usage_add_def)
    qed
  qed
qed

lemma never_success:
  assumes "length (replies loads prov stream_enabled n step_index st) = n"
    and "\<forall>r \<in> set (replies loads prov stream_enabled n step_index st). pr_tool_calls r \<noteq> []"
  shows "\<exists>final pre.
      agent_steps loads prov stream_enabled n step_index st = (Returned 1, final)
    \<and> a_stdout final = a_stdout st
    \<and> a_stderr final = pre @ [MaxStepsReached] @ usage_report (a_total_usage final)
    \<and> length (filter (\<lambda>d. case d of LlmInput i ms \<Rightarrow> True | _ \<Rightarrow> False) (a_stderr final)) =
        length (filter (\<lambda>d. case d of LlmInput i ms \<Rightarrow> True | _ \<Rightarrow> False) (a_stderr st)) + n"
  using assms
proof (induction n arbitrary: step_index st)
  case 0
  show ?case
    by (intro exI[of _ "st\<lparr>a_stderr := a_stderr st @ [MaxStepsReached]
          @ usage_report (a_total_usage st)\<rparr>"] exI[of _ "a_stderr st"])
       (simp add: usage_report_def)
next
  case (Suc n)
  show ?case
  proof (cases "call_provider prov stream_enabled step_index (a_messages st)")
    case (Inl e)
    with Suc.prems(1) show ?thesis by (simp add: Let_def)
  next
    case (Inr response)
    from Suc.prems(2) Inr have calls: "pr_tool_calls response \<noteq> []"
      by (simp add: Let_def)
    define st2 where "st2 = st\<lparr>a_stderr := a_stderr st @ [LlmInput step_index (a_messages st),
            LlmReply step_index (pr_message response) (pr_tool_calls response)],
        a_messages := a_messages st
            @ [build_assistant_message (pr_message response) (pr_tool_calls response)],
        a_total_usage := usage_add (a_total_usage st) (pr_usage response)\<rparr>"
    from dispatch_calls_result[of loads "pr_tool_calls response" st2] obtain st3 where
      r: "efold (dispatch_call loads) (pr_tool_calls response) st2 = Inr st3"
      and o: "a_stdout st3 = a_stdout st2" "a_stderr st3 = a_stderr st2"
      by blast
    have a: "agent_steps loads prov stream_enabled (Suc n) step_index st =
        agent_steps loads prov stream_enabled n (step_index + 1) st3"
      using Inr calls r by (simp add: Let_def st2_def)
    have b: "replies loads prov stream_enabled (Suc n) step_index st =
        response # replies loads prov stream_enabled n (step_index + 1) st3"
      using Inr calls r by (simp add: Let_def st2_def)
    from Suc.prems b have
      l: "length (replies loads prov stream_enabled n (step_index + 1) st3) = n"
      and c: "\<forall>r \<in> set (replies loads prov stream_enabled n (step_index + 1) st3). pr_tool_calls r \<noteq> []"
      by simp_all
    from Suc.IH[OF l c] obtain final pre where
      f: "agent_steps loads prov stream_enabled n (step_index + 1) st3 = (Returned 1, final)"
      "a_stdout final = a_stdout st3"
      "a_stderr final = pre @ [MaxStepsReached] @ usage_report (a_total_usage final)"
      "length (filter (\<lambda>d. case d of LlmInput i ms \<Rightarrow> True | _ \<Rightarrow> False) (a_stderr final)) =
        length (filter (\<lambda>d. case d of LlmInput i ms \<Rightarrow> True | _ \<Rightarrow> False) (a_stderr st3)) + n"
      by blast
    have e1: "agent_steps loads prov stream_enabled (Suc n) step_index st = (Returned 1, final)"
      by (simp only: a f(1))
    have e2: "a_stdout final = a_stdout st"
      by (simp add: f(2) o st2_def)
    have e4: "length (filter (\<lambda>d. case d of LlmInput i ms \<Rightarrow> True | _ \<Rightarrow> False) (a_stderr final)) =
        length (filter (\<lambda>d. case d of LlmInput i ms \<Rightarrow> True | _ \<Rightarrow> False) (a_stderr st)) + Suc n"
      using f(4) by (simp add: o st2_def)
    show ?thesis
      by (intro exI[of _ final] exI[of _ pre] conjI e1 e2 f(3) e4)
  qed
qed


text \<open>
  C6, as the code has it. A reply with no tool calls ends the run at once with status 0:
  the assistant's text, when it is not empty, is the run's output, and no further
  provider call is made. When the steps are used up the run ends with status 1, which
  is not the status of success, after the notice that the maximum is reached; this is
  the ending of every run in which each of the \<open>n\<close> steps of the budget got a reply that
  asks for tools, and such a run makes \<open>n\<close> provider calls and writes no output. The
  total usage at the end of the loop is the usage at its beginning plus, field by
  field, the usages of all the replies. In both endings the usage line, with these
  totals, is written only when the total of the field \<open>total_tokens\<close> is positive. The
  loop always returns one of the two statuses. With a budget of one step and a reply
  that asks for tools, the run makes the one provider call, one \<open>call_tool\<close> request per
  requested call, writes no output, and ends with status 1.
\<close>

theorem loop_endings:
  "(call_provider prov stream_enabled step_index (a_messages st) = Inr response
      \<and> pr_tool_calls response = [] \<longrightarrow>
    agent_steps loads prov stream_enabled (Suc n) step_index st =
     (Returned 0,
      st\<lparr>a_stderr := a_stderr st
            @ [LlmInput step_index (a_messages st), LlmReply step_index (pr_message response) []]
            @ usage_report (usage_add (a_total_usage st) (pr_usage response)),
         a_messages := a_messages st @ [build_assistant_message (pr_message response) []],
         a_total_usage := usage_add (a_total_usage st) (pr_usage response),
         a_stdout := a_stdout st
            @ (if truthy (case map_of (pr_message response) ''content'' of
                            None \<Rightarrow> JNull | Some v \<Rightarrow> v)
               then [case map_of (pr_message response) ''content'' of
                       None \<Rightarrow> JNull | Some v \<Rightarrow> v]
               else [])\<rparr>))
   \<and> agent_steps loads prov stream_enabled 0 step_index st =
       (Returned 1,
        st\<lparr>a_stderr := a_stderr st @ [MaxStepsReached] @ usage_report (a_total_usage st)\<rparr>)
   \<and> Returned 1 \<noteq> Returned 0
   \<and> usage_report u =
       (if total_tokens u > 0
        then [TokenUsageLine (input_tokens u) (output_tokens u) (total_tokens u)] else [])
   \<and> usage_add a b =
       \<lparr>input_tokens = input_tokens a + input_tokens b,
        output_tokens = output_tokens a + output_tokens b,
        total_tokens = total_tokens a + total_tokens b\<rparr>
   \<and> input_tokens (a_total_usage (snd (agent_steps loads prov stream_enabled m step_index st))) =
       input_tokens (a_total_usage st)
         + sum_list (map (\<lambda>r. input_tokens (pr_usage r)) (replies loads prov stream_enabled m step_index st))
   \<and> output_tokens (a_total_usage (snd (agent_steps loads prov stream_enabled m step_index st))) =
       output_tokens (a_total_usage st)
         + sum_list (map (\<lambda>r. output_tokens (pr_usage r)) (replies loads prov stream_enabled m step_index st))
   \<and> total_tokens (a_total_usage (snd (agent_steps loads prov stream_enabled m step_index st))) =
       total_tokens (a_total_usage st)
         + sum_list (map (\<lambda>r. total_tokens (pr_usage r)) (replies loads prov stream_enabled m step_index st))
   \<and> (length (replies loads prov stream_enabled m step_index st) = m
       \<and> (\<forall>r \<in> set (replies loads prov stream_enabled m step_index st). pr_tool_calls r \<noteq> []) \<longrightarrow>
       (\<exists>final pre.
          agent_steps loads prov stream_enabled m step_index st = (Returned 1, final)
        \<and> a_stdout final = a_stdout st
        \<and> a_stderr final = pre @ [MaxStepsReached] @ usage_report (a_total_usage final)
        \<and> length (filter (\<lambda>d. case d of LlmInput i ms \<Rightarrow> True | _ \<Rightarrow> False) (a_stderr final)) =
            length (filter (\<lambda>d. case d of LlmInput i ms \<Rightarrow> True | _ \<Rightarrow> False) (a_stderr st)) + m))
   \<and> (fst (agent_steps loads prov stream_enabled m step_index st) = Returned 0
       \<or> fst (agent_steps loads prov stream_enabled m step_index st) = Returned 1)
   \<and> (call_provider prov stream_enabled step_index (a_messages st) = Inr response'
      \<and> pr_tool_calls response' \<noteq> [] \<longrightarrow>
      (\<exists>st3 contents.
          agent_steps loads prov stream_enabled (Suc 0) step_index st = (Returned 1, st3)
        \<and> length contents = length (pr_tool_calls response')
        \<and> a_messages st3 = a_messages st
            @ [build_assistant_message (pr_message response') (pr_tool_calls response')]
            @ tool_messages (pr_tool_calls response') contents
        \<and> a_stdout st3 = a_stdout st
        \<and> a_stderr st3 = a_stderr st @ [LlmInput step_index (a_messages st),
              LlmReply step_index (pr_message response') (pr_tool_calls response'), MaxStepsReached]
              @ usage_report (usage_add (a_total_usage st) (pr_usage response'))
        \<and> a_total_usage st3 = usage_add (a_total_usage st) (pr_usage response')
        \<and> map req_method (proc_stdin (a_client st3)) =
             map req_method (proc_stdin (a_client st))
             @ replicate (length (pr_tool_calls response')) ''call_tool''))"
proof -
  have a: "call_provider prov stream_enabled step_index (a_messages st) = Inr response
      \<and> pr_tool_calls response = [] \<longrightarrow>
    agent_steps loads prov stream_enabled (Suc n) step_index st =
     (Returned 0,
      st\<lparr>a_stderr := a_stderr st
            @ [LlmInput step_index (a_messages st), LlmReply step_index (pr_message response) []]
            @ usage_report (usage_add (a_total_usage st) (pr_usage response)),
         a_messages := a_messages st @ [build_assistant_message (pr_message response) []],
         a_total_usage := usage_add (a_total_usage st) (pr_usage response),
         a_stdout := a_stdout st
            @ (if truthy (case map_of (pr_message response) ''content'' of
                            None \<Rightarrow> JNull | Some v \<Rightarrow> v)
               then [case map_of (pr_message response) ''content'' of
                       None \<Rightarrow> JNull | Some v \<Rightarrow> v]
               else [])\<rparr>)"
    using step_without_tool_calls[of prov stream_enabled step_index st response loads n] by blast
  have b: "agent_steps loads prov stream_enabled 0 step_index st =
       (Returned 1,
        st\<lparr>a_stderr := a_stderr st @ [MaxStepsReached] @ usage_report (a_total_usage st)\<rparr>)"
    by simp
  have c: "Returned 1 \<noteq> Returned 0" by simp
  have d: "usage_report u =
       (if total_tokens u > 0
        then [TokenUsageLine (input_tokens u) (output_tokens u) (total_tokens u)] else [])"
    by (simp add: usage_report_def)
  note t = run_usage[of loads prov stream_enabled m step_index st]
  have h: "length (replies loads prov stream_enabled m step_index st) = m
       \<and> (\<forall>r \<in> set (replies loads prov stream_enabled m step_index st). pr_tool_calls r \<noteq> []) \<longrightarrow>
       (\<exists>final pre.
          agent_steps loads prov stream_enabled m step_index st = (Returned 1, final)
        \<and> a_stdout final = a_stdout st
        \<and> a_stderr final = pre @ [MaxStepsReached] @ usage_report (a_total_usage final)
        \<and> length (filter (\<lambda>d. case d of LlmInput i ms \<Rightarrow> True | _ \<Rightarrow> False) (a_stderr final)) =
            length (filter (\<lambda>d. case d of LlmInput i ms \<Rightarrow> True | _ \<Rightarrow> False) (a_stderr st)) + m)"
    using never_success[of loads prov stream_enabled m step_index st] by blast
  have e: "call_provider prov stream_enabled step_index (a_messages st) = Inr response'
      \<and> pr_tool_calls response' \<noteq> [] \<longrightarrow>
      (\<exists>st3 contents.
          agent_steps loads prov stream_enabled (Suc 0) step_index st = (Returned 1, st3)
        \<and> length contents = length (pr_tool_calls response')
        \<and> a_messages st3 = a_messages st
            @ [build_assistant_message (pr_message response') (pr_tool_calls response')]
            @ tool_messages (pr_tool_calls response') contents
        \<and> a_stdout st3 = a_stdout st
        \<and> a_stderr st3 = a_stderr st @ [LlmInput step_index (a_messages st),
              LlmReply step_index (pr_message response') (pr_tool_calls response'), MaxStepsReached]
              @ usage_report (usage_add (a_total_usage st) (pr_usage response'))
        \<and> a_total_usage st3 = usage_add (a_total_usage st) (pr_usage response')
        \<and> map req_method (proc_stdin (a_client st3)) =
             map req_method (proc_stdin (a_client st))
             @ replicate (length (pr_tool_calls response')) ''call_tool'')"
    using budget_of_one[of prov stream_enabled step_index st response' loads] by blast
  show ?thesis
    by (intro conjI a b c d e h agent_steps_returns usage_add_fields
        conjunct1[OF t] conjunct1[OF conjunct2[OF t]] conjunct2[OF conjunct2[OF t]])
qed

text \<open>
  Scenarios: a tool server that lists its tools and answers two calls; a provider that
  asks for \<open>ls\<close> at every step, with the usage 5/7/12 at the first step and 1/2/3 after
  it.
\<close>

definition listing_server :: tool_server_client where
  "listing_server =
     new_client None [reply_ok ''1'' (JArr []), reply_ok ''2'' (JObj [(''content'', JStr ''a.go'')]),
                      reply_ok ''3'' (JObj [(''content'', JStr ''b.go'')])]"

definition after_listing :: tool_server_client where
  "after_listing =
     \<lparr>next_id = 3,
      proc_stdin = [\<lparr>req_id = ''1'', req_method = ''list_tools'', req_params = JObj []\<rparr>,
                    \<lparr>req_id = ''2'', req_method = ''call_tool'',
                     req_params = JObj [(''name'', JStr ''ls''), (''input'', JObj [])]\<rparr>],
      proc_stdout = [reply_ok ''3'' (JObj [(''content'', JStr ''b.go'')])], proc_reads = None\<rparr>"

definition after_two_listings :: tool_server_client where
  "after_two_listings =
     \<lparr>next_id = 4,
      proc_stdin = [\<lparr>req_id = ''1'', req_method = ''list_tools'', req_params = JObj []\<rparr>,
                    \<lparr>req_id = ''2'', req_method = ''call_tool'',
                     req_params = JObj [(''name'', JStr ''ls''), (''input'', JObj [])]\<rparr>,
                    \<lparr>req_id = ''3'', req_method = ''call_tool'',
                     req_params = JObj [(''name'', JStr ''ls''), (''input'', JObj [])]\<rparr>],
      proc_stdout = [], proc_reads = None\<rparr>"

definition two_tools :: provider where
  "two_tools =
     \<lparr>p_request = (\<lambda>step_index messages.
                     Inr (ls_request (if step_index = 1
                                      then \<lparr>input_tokens = 5, output_tokens = 7, total_tokens = 12\<rparr>
                                      else \<lparr>input_tokens = 1, output_tokens = 2, total_tokens = 3\<rparr>))),
      p_stream = (\<lambda>step_index messages. Inl URLError)\<rparr>"

definition listed_state :: agent where
  "listed_state =
     \<lparr>a_client = \<lparr>next_id = 2,
           proc_stdin = [\<lparr>req_id = ''1'', req_method = ''list_tools'', req_params = JObj []\<rparr>],
           proc_stdout = [reply_ok ''2'' (JObj [(''content'', JStr ''a.go'')]),
                          reply_ok ''3'' (JObj [(''content'', JStr ''b.go'')])],
           proc_reads = None\<rparr>,
      a_messages = first_history, a_total_usage = no_usage, a_stdout = [], a_stderr = []\<rparr>"

definition two_steps_end :: agent where
  "two_steps_end =
     \<lparr>a_client = after_two_listings,
      a_messages = first_history @ [ls_call_message, ls_result_message ''a.go'',
                                    ls_call_message, ls_result_message ''b.go''],
      a_total_usage = \<lparr>input_tokens = 6, output_tokens = 9, total_tokens = 15\<rparr>,
      a_stdout = [],
      a_stderr = [LlmInput 1 first_history,
         LlmReply 1 [(''role'', JStr ''assistant''), (''content'', JNull)]
           [\<lparr>tc_id = JStr ''call_1'', tc_name = JStr ''ls'', tc_arguments = JStr ''{}''\<rparr>],
         LlmInput 2 (first_history @ [ls_call_message, ls_result_message ''a.go'']),
         LlmReply 2 [(''role'', JStr ''assistant''), (''content'', JNull)]
           [\<lparr>tc_id = JStr ''call_1'', tc_name = JStr ''ls'', tc_arguments = JStr ''{}''\<rparr>],
         MaxStepsReached, TokenUsageLine 6 9 15]\<rparr>"

lemma str_int_3: "str_int 3 = ''3''"
  by code_simp

lemma budget_run_with_usage:
  "run_agent py_json_loads
      (always_tool \<lparr>input_tokens = 3, output_tokens = 4, total_tokens = 7\<rparr>)
      fixed_prompt listing_server ''hi'' False 1 =
     (Returned 1,
      \<lparr>a_client = after_listing,
       a_messages = first_history @ [ls_call_message, ls_result_message ''a.go''],
       a_total_usage = \<lparr>input_tokens = 3, output_tokens = 4, total_tokens = 7\<rparr>,
       a_stdout = [],
       a_stderr = [LlmInput 1 first_history,
          LlmReply 1 [(''role'', JStr ''assistant''), (''content'', JNull)]
            [\<lparr>tc_id = JStr ''call_1'', tc_name = JStr ''ls'', tc_arguments = JStr ''{}''\<rparr>],
          MaxStepsReached, TokenUsageLine 3 4 7]\<rparr>)"
  by (simp add: agent_eval loads_empty_object listing_server_def after_listing_def)

lemma two_steps_run:
  "agent_steps py_json_loads two_tools False (Suc (Suc 0)) 1 listed_state = (Returned 1, two_steps_end)"
  by (simp add: agent_eval loads_empty_object listed_state_def two_steps_end_def two_tools_def
      after_two_listings_def str_int_3)

lemma two_steps_replies:
  "replies py_json_loads two_tools False (Suc (Suc 0)) 1 listed_state =
     [ls_request \<lparr>input_tokens = 5, output_tokens = 7, total_tokens = 12\<rparr>,
      ls_request \<lparr>input_tokens = 1, output_tokens = 2, total_tokens = 3\<rparr>]"
  by (simp add: agent_eval loads_empty_object listed_state_def two_tools_def str_int_3)

lemma two_steps_whole_run:
  "run_agent py_json_loads two_tools fixed_prompt listing_server ''hi'' False 2 =
     (Returned 1, two_steps_end)"
  by (simp add: agent_eval loads_empty_object listing_server_def two_steps_end_def two_tools_def
      after_two_listings_def str_int_3 agent_steps_numeral del: Suc_numeral)

lemma answer_run:
  "agent_steps py_json_loads tool_then_answer False (Suc 6) 2 boom_state =
     (Returned 0,
      boom_state\<lparr>a_stderr := [LlmInput 2 [], LlmReply 2 (pr_message final_answer) [],
                     TokenUsageLine 3 4 7],
         a_messages := [JObj [(''role'', JStr ''assistant''), (''content'', JStr ''done'')]],
         a_total_usage := \<lparr>input_tokens = 3, output_tokens = 4, total_tokens = 7\<rparr>,
         a_stdout := [JStr ''done'']\<rparr>)"
  by (simp add: agent_eval boom_state_def del: Suc_numeral)

theorem loop_endings_witness:
  "call_provider tool_then_answer False 2 (a_messages boom_state) = Inr final_answer
   \<and> pr_tool_calls final_answer = []
   \<and> agent_steps py_json_loads tool_then_answer False (Suc 6) 2 boom_state =
     (Returned 0,
      boom_state\<lparr>a_stderr := [LlmInput 2 [], LlmReply 2 (pr_message final_answer) [],
                     TokenUsageLine 3 4 7],
         a_messages := [JObj [(''role'', JStr ''assistant''), (''content'', JStr ''done'')]],
         a_total_usage := \<lparr>input_tokens = 3, output_tokens = 4, total_tokens = 7\<rparr>,
         a_stdout := [JStr ''done'']\<rparr>)
   \<and> call_provider tool_then_answer False 1 (a_messages boom_state) = Inr (ls_request no_usage)
   \<and> pr_tool_calls (ls_request no_usage) \<noteq> []
   \<and> (\<exists>st3. agent_steps py_json_loads tool_then_answer False (Suc 0) 1 boom_state = (Returned 1, st3)
         \<and> a_stdout st3 = []
         \<and> a_stderr st3 = [LlmInput 1 [],
              LlmReply 1 (pr_message (ls_request no_usage)) (pr_tool_calls (ls_request no_usage)),
              MaxStepsReached]
         \<and> map req_method (proc_stdin (a_client st3)) = [''call_tool''])
   \<and> run_agent py_json_loads
      (always_tool \<lparr>input_tokens = 3, output_tokens = 4, total_tokens = 7\<rparr>)
      fixed_prompt listing_server ''hi'' False 1 =
     (Returned 1,
      \<lparr>a_client = after_listing,
       a_messages = first_history @ [ls_call_message, ls_result_message ''a.go''],
       a_total_usage = \<lparr>input_tokens = 3, output_tokens = 4, total_tokens = 7\<rparr>,
       a_stdout = [],
       a_stderr = [LlmInput 1 first_history,
          LlmReply 1 [(''role'', JStr ''assistant''), (''content'', JNull)]
            [\<lparr>tc_id = JStr ''call_1'', tc_name = JStr ''ls'', tc_arguments = JStr ''{}''\<rparr>],
          MaxStepsReached, TokenUsageLine 3 4 7]\<rparr>)
   \<and> replies py_json_loads two_tools False (Suc (Suc 0)) 1 listed_state =
        [ls_request \<lparr>input_tokens = 5, output_tokens = 7, total_tokens = 12\<rparr>,
         ls_request \<lparr>input_tokens = 1, output_tokens = 2, total_tokens = 3\<rparr>]
   \<and> agent_steps py_json_loads two_tools False (Suc (Suc 0)) 1 listed_state = (Returned 1, two_steps_end)
   \<and> run_agent py_json_loads two_tools fixed_prompt listing_server ''hi'' False 2 =
        (Returned 1, two_steps_end)
   \<and> a_total_usage two_steps_end = \<lparr>input_tokens = 0 + (5 + 1), output_tokens = 0 + (7 + 2),
                                      total_tokens = 0 + (12 + 3)\<rparr>
   \<and> a_stdout two_steps_end = []
   \<and> (\<exists>pre. a_stderr two_steps_end = pre @ [MaxStepsReached, TokenUsageLine 6 9 15])
   \<and> length (filter (\<lambda>d. case d of LlmInput i ms \<Rightarrow> True | _ \<Rightarrow> False) (a_stderr two_steps_end)) = 2"
proof -
  have p2: "call_provider tool_then_answer False 2 (a_messages boom_state) = Inr final_answer"
    and q2: "pr_tool_calls final_answer = []"
    and p1: "call_provider tool_then_answer False 1 (a_messages boom_state) = Inr (ls_request no_usage)"
    and q1: "pr_tool_calls (ls_request no_usage) \<noteq> []"
    by (simp_all add: call_provider_def tool_then_answer_def final_answer_def ls_request_def)
  have a: "agent_steps py_json_loads tool_then_answer False (Suc 6) 2 boom_state =
     (Returned 0,
      boom_state\<lparr>a_stderr := [LlmInput 2 [], LlmReply 2 (pr_message final_answer) [],
                     TokenUsageLine 3 4 7],
         a_messages := [JObj [(''role'', JStr ''assistant''), (''content'', JStr ''done'')]],
         a_total_usage := \<lparr>input_tokens = 3, output_tokens = 4, total_tokens = 7\<rparr>,
         a_stdout := [JStr ''done'']\<rparr>)"
    by (simp only: answer_run)
  note U = loop_endings[of tool_then_answer False 1 boom_state _ py_json_loads _ _ _ _ _ "ls_request no_usage"]
  from U p1 q1 obtain st3 where
    "agent_steps py_json_loads tool_then_answer False (Suc 0) 1 boom_state = (Returned 1, st3)"
    "a_stdout st3 = a_stdout boom_state"
    "a_stderr st3 = a_stderr boom_state @ [LlmInput 1 (a_messages boom_state),
              LlmReply 1 (pr_message (ls_request no_usage)) (pr_tool_calls (ls_request no_usage)),
              MaxStepsReached]
              @ usage_report (usage_add (a_total_usage boom_state) (pr_usage (ls_request no_usage)))"
    "map req_method (proc_stdin (a_client st3)) =
             map req_method (proc_stdin (a_client boom_state))
             @ replicate (length (pr_tool_calls (ls_request no_usage))) ''call_tool''"
    by blast
  then have b: "\<exists>st3. agent_steps py_json_loads tool_then_answer False (Suc 0) 1 boom_state = (Returned 1, st3)
         \<and> a_stdout st3 = []
         \<and> a_stderr st3 = [LlmInput 1 [],
              LlmReply 1 (pr_message (ls_request no_usage)) (pr_tool_calls (ls_request no_usage)),
              MaxStepsReached]
         \<and> map req_method (proc_stdin (a_client st3)) = [''call_tool'']"
    by (intro exI[of _ st3])
       (simp add: boom_state_def usage_report_def usage_add_def no_usage_def ls_request_def)
  note V = loop_endings[of two_tools False 1 listed_state _ py_json_loads _ _ _ _ "Suc (Suc 0)"]
  have l: "length (replies py_json_loads two_tools False (Suc (Suc 0)) 1 listed_state) = Suc (Suc 0)"
    and c: "\<forall>r \<in> set (replies py_json_loads two_tools False (Suc (Suc 0)) 1 listed_state).
              pr_tool_calls r \<noteq> []"
    by (simp_all only: two_steps_replies) (simp_all add: ls_request_def)
  from V l c obtain final pre where
    f: "agent_steps py_json_loads two_tools False (Suc (Suc 0)) 1 listed_state = (Returned 1, final)"
    "a_stdout final = a_stdout listed_state"
    "a_stderr final = pre @ [MaxStepsReached] @ usage_report (a_total_usage final)"
    "length (filter (\<lambda>d. case d of LlmInput i ms \<Rightarrow> True | _ \<Rightarrow> False) (a_stderr final)) =
        length (filter (\<lambda>d. case d of LlmInput i ms \<Rightarrow> True | _ \<Rightarrow> False) (a_stderr listed_state))
          + Suc (Suc 0)"
    by blast
  have fin: "final = two_steps_end" using f(1) unfolding two_steps_run by simp
  from V have "input_tokens (a_total_usage (snd (agent_steps py_json_loads two_tools False (Suc (Suc 0)) 1 listed_state))) =
       input_tokens (a_total_usage listed_state)
         + sum_list (map (\<lambda>r. input_tokens (pr_usage r)) (replies py_json_loads two_tools False (Suc (Suc 0)) 1 listed_state))"
    "output_tokens (a_total_usage (snd (agent_steps py_json_loads two_tools False (Suc (Suc 0)) 1 listed_state))) =
       output_tokens (a_total_usage listed_state)
         + sum_list (map (\<lambda>r. output_tokens (pr_usage r)) (replies py_json_loads two_tools False (Suc (Suc 0)) 1 listed_state))"
    "total_tokens (a_total_usage (snd (agent_steps py_json_loads two_tools False (Suc (Suc 0)) 1 listed_state))) =
       total_tokens (a_total_usage listed_state)
         + sum_list (map (\<lambda>r. total_tokens (pr_usage r)) (replies py_json_loads two_tools False (Suc (Suc 0)) 1 listed_state))"
    by blast+
  then have t: "a_total_usage two_steps_end = \<lparr>input_tokens = 0 + (5 + 1), output_tokens = 0 + (7 + 2),
                                      total_tokens = 0 + (12 + 3)\<rparr>"
    unfolding two_steps_run two_steps_replies
    by (simp add: listed_state_def no_usage_def ls_request_def two_steps_end_def)
  from f fin have o: "a_stdout two_steps_end = []"
    by (simp add: listed_state_def)
  from f(3) fin have e: "\<exists>pre. a_stderr two_steps_end = pre @ [MaxStepsReached, TokenUsageLine 6 9 15]"
    by (intro exI[of _ pre]) (simp add: usage_report_def two_steps_end_def)
  from f(4) fin have n: "length (filter (\<lambda>d. case d of LlmInput i ms \<Rightarrow> True | _ \<Rightarrow> False)
      (a_stderr two_steps_end)) = 2"
    by (simp add: listed_state_def)
  from p2 q2 a p1 q1 b budget_run_with_usage two_steps_replies two_steps_run two_steps_whole_run t o e n
  show ?thesis by (intro conjI)
qed

text \<open>
  Against C6 as stated (the budget ending still reports the accumulated usage): with a
  budget of one step and a reply that asks for a tool and reports 5 prompt tokens and 7
  completion tokens with no total, the run accumulates this usage, ends with status 1,
  and writes no usage line.
\<close>

theorem unreported_usage_counterexample:
  "run_agent py_json_loads
      (always_tool \<lparr>input_tokens = 5, output_tokens = 7, total_tokens = 0\<rparr>)
      fixed_prompt listing_server ''hi'' False 1 =
     (Returned 1,
      \<lparr>a_client = after_listing,
       a_messages = first_history @ [ls_call_message, ls_result_message ''a.go''],
       a_total_usage = \<lparr>input_tokens = 5, output_tokens = 7, total_tokens = 0\<rparr>,
       a_stdout = [],
       a_stderr = [LlmInput 1 first_history,
          LlmReply 1 [(''role'', JStr ''assistant''), (''content'', JNull)]
            [\<lparr>tc_id = JStr ''call_1'', tc_name = JStr ''ls'', tc_arguments = JStr ''{}''\<rparr>],
          MaxStepsReached]\<rparr>)"
  by (simp add: agent_eval loads_empty_object listing_server_def after_listing_def)


subsection \<open>Failures of the tool channel\<close>

lemma request_broken_pipe:
  "proc_reads c = Some 0 \<Longrightarrow> fst (request c m p) = Inl BrokenPipeError"
  by (simp add: request_def Let_def)

lemma request_end_of_stream:
  "proc_reads c \<noteq> Some 0 \<Longrightarrow> proc_stdout c = [] \<Longrightarrow>
     fst (request c m p) = Inl (RuntimeError ''toolserver exited'')"
  by (simp add: request_def Let_def)

lemma run_agent_list_tools_raises:
  "fst (list_tools client) = Inl e \<Longrightarrow>
     run_agent loads prov system_prompt_of client prompt stream_enabled max_steps =
       (RaisedByTool e,
        \<lparr>a_client = snd (list_tools client), a_messages = [], a_total_usage = no_usage,
         a_stdout = [], a_stderr = []\<rparr>)"
  by (cases "list_tools client") (simp add: run_agent_def Let_def)

lemma dispatch_call_raises:
  assumes "normalize_arguments loads (tc_arguments call) = Inr args_obj"
    and "fst (call_tool (a_client st) (tc_name call) args_obj) = Inl e"
  shows "dispatch_call loads call st =
     Inr (st\<lparr>a_client := snd (call_tool (a_client st) (tc_name call) args_obj),
             a_messages := a_messages st
               @ [tool_message call (JStr (''tool call failed: '' @ exn_text e))]\<rparr>)"
  using assms
  by (cases "call_tool (a_client st) (tc_name call) args_obj")
     (simp add: dispatch_call_def try_call_tool_def Let_def)

text \<open>
  C1, as the code has it. The stream of the child can end before a reply in two ways.
  When the child no longer reads, the write of the request raises \<open>BrokenPipeError\<close>;
  when it has taken the request and its output ends, \<open>request\<close> raises
  \<open>toolserver exited\<close>. On a reply with another id \<open>request\<close> raises the mismatch error.
  Raised by the first call, \<open>list_tools\<close>, the exception leaves \<open>run_agent\<close>: the run is
  aborted before any provider call. Raised while a tool call of the conversation loop is
  dispatched, it is caught like any other failure of the call: the message
  \<open>tool call failed: <text>\<close> is appended for the call and the loop goes on.
\<close>

theorem channel_failures:
  "(proc_reads c = Some 0 \<longrightarrow> fst (request c m p) = Inl BrokenPipeError)
   \<and> (proc_reads c \<noteq> Some 0 \<and> proc_stdout c = [] \<longrightarrow>
        fst (request c m p) = Inl (RuntimeError ''toolserver exited''))
   \<and> (proc_reads c \<noteq> Some 0 \<and> proc_stdout c = Reply resp # rest
        \<and> resp_id resp \<noteq> Some (str_int (next_id c)) \<longrightarrow>
        fst (request c m p) =
          Inl (RuntimeError (''mismatched response id: expected '' @ str_int (next_id c)
                 @ '', got '' @ (case resp_id resp of None \<Rightarrow> ''None'' | Some i \<Rightarrow> i))))
   \<and> (fst (list_tools client) = Inl e \<longrightarrow>
        run_agent loads prov system_prompt_of client prompt stream_enabled max_steps =
          (RaisedByTool e,
           \<lparr>a_client = snd (list_tools client), a_messages = [], a_total_usage = no_usage,
            a_stdout = [], a_stderr = []\<rparr>))
   \<and> (normalize_arguments loads (tc_arguments call) = Inr args_obj
        \<and> fst (call_tool (a_client st) (tc_name call) args_obj) = Inl e' \<longrightarrow>
        dispatch_call loads call st =
          Inr (st\<lparr>a_client := snd (call_tool (a_client st) (tc_name call) args_obj),
                  a_messages := a_messages st
                    @ [tool_message call (JStr (''tool call failed: '' @ exn_text e'))]\<rparr>))
   \<and> exn_text (RuntimeError msg) = msg
   \<and> exn_text BrokenPipeError = ''[Errno 32] Broken pipe''"
  using request_broken_pipe[of c m p] request_end_of_stream[of c m p]
    request_mismatch[of c resp rest m p]
    run_agent_list_tools_raises[of client e loads prov system_prompt_of prompt stream_enabled max_steps]
    dispatch_call_raises[of loads call args_obj st e']
  by simp

text \<open>
  A child that has taken the request and whose output has ended, and a child that no
  longer reads.
\<close>

definition closed_state :: agent where
  "closed_state =
     \<lparr>a_client = \<lparr>next_id = 2, proc_stdin = [], proc_stdout = [], proc_reads = None\<rparr>,
      a_messages = [], a_total_usage = no_usage, a_stdout = [], a_stderr = []\<rparr>"

definition broken_state :: agent where
  "broken_state =
     \<lparr>a_client = \<lparr>next_id = 2, proc_stdin = [], proc_stdout = [], proc_reads = Some 0\<rparr>,
      a_messages = [], a_total_usage = no_usage, a_stdout = [], a_stderr = []\<rparr>"

theorem channel_failures_witness:
  "proc_reads (new_client (Some 0) []) = Some 0
   \<and> fst (list_tools (new_client (Some 0) [])) = Inl BrokenPipeError
   \<and> run_agent py_json_loads tool_then_answer fixed_prompt (new_client (Some 0) []) ''hi'' False 8 =
       (RaisedByTool BrokenPipeError,
        \<lparr>a_client = \<lparr>next_id = 2,
            proc_stdin = [\<lparr>req_id = ''1'', req_method = ''list_tools'', req_params = JObj []\<rparr>],
            proc_stdout = [], proc_reads = Some 0\<rparr>,
         a_messages = [], a_total_usage = no_usage, a_stdout = [], a_stderr = []\<rparr>)
   \<and> proc_reads (new_client (Some 1) []) \<noteq> Some 0 \<and> proc_stdout (new_client (Some 1) []) = []
   \<and> fst (list_tools (new_client (Some 1) [])) = Inl (RuntimeError ''toolserver exited'')
   \<and> run_agent py_json_loads tool_then_answer fixed_prompt (new_client (Some 1) []) ''hi'' False 8 =
       (RaisedByTool (RuntimeError ''toolserver exited''),
        \<lparr>a_client = \<lparr>next_id = 2,
            proc_stdin = [\<lparr>req_id = ''1'', req_method = ''list_tools'', req_params = JObj []\<rparr>],
            proc_stdout = [], proc_reads = Some 0\<rparr>,
         a_messages = [], a_total_usage = no_usage, a_stdout = [], a_stderr = []\<rparr>)
   \<and> resp_id \<lparr>resp_id = Some ''7'', resp_error = None, resp_result = JNull\<rparr> \<noteq> Some (str_int 2)
   \<and> fst (request \<lparr>next_id = 2, proc_stdin = [], proc_stdout = [reply_ok ''7'' JNull],
                   proc_reads = None\<rparr> ''call_tool'' JNull) =
       Inl (RuntimeError ''mismatched response id: expected 2, got 7'')
   \<and> normalize_arguments py_json_loads (JStr ''{}'') = Inr []
   \<and> fst (call_tool (a_client closed_state) (JStr ''ls'') []) = Inl (RuntimeError ''toolserver exited'')
   \<and> dispatch_call py_json_loads
         \<lparr>tc_id = JStr ''call_1'', tc_name = JStr ''ls'', tc_arguments = JStr ''{}''\<rparr> closed_state =
       Inr (closed_state\<lparr>a_client := \<lparr>next_id = 3,
               proc_stdin = [\<lparr>req_id = ''2'', req_method = ''call_tool'',
                          req_params = JObj [(''name'', JStr ''ls''), (''input'', JObj [])]\<rparr>],
               proc_stdout = [], proc_reads = None\<rparr>,
             a_messages := [ls_result_message ''tool call failed: toolserver exited'']\<rparr>)
   \<and> fst (call_tool (a_client broken_state) (JStr ''ls'') []) = Inl BrokenPipeError
   \<and> dispatch_call py_json_loads
         \<lparr>tc_id = JStr ''call_1'', tc_name = JStr ''ls'', tc_arguments = JStr ''{}''\<rparr> broken_state =
       Inr (broken_state\<lparr>a_client := \<lparr>next_id = 3,
               proc_stdin = [\<lparr>req_id = ''2'', req_method = ''call_tool'',
                          req_params = JObj [(''name'', JStr ''ls''), (''input'', JObj [])]\<rparr>],
               proc_stdout = [], proc_reads = Some 0\<rparr>,
             a_messages := [ls_result_message ''tool call failed: [Errno 32] Broken pipe'']\<rparr>)"
proof -
  let ?call = "\<lparr>tc_id = JStr ''call_1'', tc_name = JStr ''ls'', tc_arguments = JStr ''{}''\<rparr>"
  let ?mis = "\<lparr>next_id = 2, proc_stdin = [], proc_stdout = [reply_ok ''7'' JNull],
               proc_reads = None\<rparr>"
  have b1: "proc_reads (new_client (Some 0) []) = Some 0" by (simp add: new_client_def)
  have b2: "fst (list_tools (new_client (Some 0) [])) = Inl BrokenPipeError"
    by (simp add: list_tools_def request_def new_client_def Let_def)
  have h1: "proc_reads (new_client (Some 1) []) \<noteq> Some 0 \<and> proc_stdout (new_client (Some 1) []) = []"
    by (simp add: new_client_def)
  have h2: "fst (list_tools (new_client (Some 1) [])) = Inl (RuntimeError ''toolserver exited'')"
    by (simp add: list_tools_def request_def new_client_def Let_def)
  have h3: "resp_id \<lparr>resp_id = Some ''7'', resp_error = None, resp_result = JNull\<rparr> \<noteq> Some (str_int 2)"
    by (simp add: str_int_digits)
  have h4: "normalize_arguments py_json_loads (tc_arguments ?call) = Inr []"
    by (simp add: normalize_arguments_def normalize_arguments_try_def loads_empty_object)
  have h5: "fst (call_tool (a_client closed_state) (tc_name ?call) []) = Inl (RuntimeError ''toolserver exited'')"
    by (simp add: closed_state_def call_tool_def request_def Let_def)
  have h6: "fst (call_tool (a_client broken_state) (tc_name ?call) []) = Inl BrokenPipeError"
    by (simp add: broken_state_def call_tool_def request_def Let_def)
  note T = channel_failures[of ?mis "''call_tool''" JNull
      "\<lparr>resp_id = Some ''7'', resp_error = None, resp_result = JNull\<rparr>" "[]"
      "new_client (Some 1) []" "RuntimeError ''toolserver exited''" py_json_loads tool_then_answer
      fixed_prompt "''hi''" False 8 ?call "[]" closed_state "RuntimeError ''toolserver exited''"]
  note B = channel_failures[of "new_client (Some 0) []" "''list_tools''" JNull _ _
      "new_client (Some 0) []" BrokenPipeError py_json_loads tool_then_answer
      fixed_prompt "''hi''" False 8 ?call "[]" broken_state BrokenPipeError]
  from B b2 have r0: "run_agent py_json_loads tool_then_answer fixed_prompt (new_client (Some 0) []) ''hi'' False 8 =
       (RaisedByTool BrokenPipeError,
        \<lparr>a_client = \<lparr>next_id = 2,
            proc_stdin = [\<lparr>req_id = ''1'', req_method = ''list_tools'', req_params = JObj []\<rparr>],
            proc_stdout = [], proc_reads = Some 0\<rparr>,
         a_messages = [], a_total_usage = no_usage, a_stdout = [], a_stderr = []\<rparr>)"
    by (simp add: list_tools_def request_def new_client_def Let_def str_int_digits or_empty_dict_def)
  from T h2 have r1: "run_agent py_json_loads tool_then_answer fixed_prompt (new_client (Some 1) []) ''hi'' False 8 =
       (RaisedByTool (RuntimeError ''toolserver exited''),
        \<lparr>a_client = \<lparr>next_id = 2,
            proc_stdin = [\<lparr>req_id = ''1'', req_method = ''list_tools'', req_params = JObj []\<rparr>],
            proc_stdout = [], proc_reads = Some 0\<rparr>,
         a_messages = [], a_total_usage = no_usage, a_stdout = [], a_stderr = []\<rparr>)"
    by (simp add: list_tools_def request_def new_client_def Let_def str_int_digits or_empty_dict_def)
  from T h3 have r2: "fst (request ?mis ''call_tool'' JNull) =
       Inl (RuntimeError ''mismatched response id: expected 2, got 7'')"
    by (simp add: reply_ok_def str_int_digits)
  from T h4 h5 have r3: "dispatch_call py_json_loads ?call closed_state =
       Inr (closed_state\<lparr>a_client := \<lparr>next_id = 3,
               proc_stdin = [\<lparr>req_id = ''2'', req_method = ''call_tool'',
                          req_params = JObj [(''name'', JStr ''ls''), (''input'', JObj [])]\<rparr>],
               proc_stdout = [], proc_reads = None\<rparr>,
             a_messages := [ls_result_message ''tool call failed: toolserver exited'']\<rparr>)"
    by (simp add: closed_state_def call_tool_def request_def Let_def str_int_digits or_empty_dict_def
        tool_message_def ls_result_message_def)
  from B h4 h6 have r4: "dispatch_call py_json_loads ?call broken_state =
       Inr (broken_state\<lparr>a_client := \<lparr>next_id = 3,
               proc_stdin = [\<lparr>req_id = ''2'', req_method = ''call_tool'',
                          req_params = JObj [(''name'', JStr ''ls''), (''input'', JObj [])]\<rparr>],
               proc_stdout = [], proc_reads = Some 0\<rparr>,
             a_messages := [ls_result_message ''tool call failed: [Errno 32] Broken pipe'']\<rparr>)"
    by (simp add: broken_state_def call_tool_def request_def Let_def str_int_digits or_empty_dict_def
        tool_message_def ls_result_message_def)
  from b1 b2 r0 h1 h2 r1 h3 r2 h4 h5 r3 h6 r4 show ?thesis by simp
qed

text \<open>
  Against C1 as stated (the failure aborts the run also while a tool call is
  dispatched). In the first run the tool server answers \<open>list_tools\<close>, takes the request
  of the tool call and ends its output without a reply; in the second it exits after
  its answer to \<open>list_tools\<close>, so that the write of the tool call fails. The model asks
  for a tool; the dispatch fails with \<open>toolserver exited\<close> or with the broken pipe, the
  failure becomes a tool message, the loop makes its second provider call, and the run
  ends in success with the final answer.
\<close>

definition run_after_failure :: "nat \<Rightarrow> string \<Rightarrow> outcome \<times> agent" where
  "run_after_failure reads_left failure =
     (Returned 0,
      \<lparr>a_client = \<lparr>next_id = 3,
           proc_stdin = [\<lparr>req_id = ''1'', req_method = ''list_tools'', req_params = JObj []\<rparr>,
                         \<lparr>req_id = ''2'', req_method = ''call_tool'',
                          req_params = JObj [(''name'', JStr ''ls''), (''input'', JObj [])]\<rparr>],
           proc_stdout = [], proc_reads = Some reads_left\<rparr>,
       a_messages = first_history
          @ [ls_call_message, ls_result_message (''tool call failed: '' @ failure),
             JObj [(''role'', JStr ''assistant''), (''content'', JStr ''done'')]],
       a_total_usage = \<lparr>input_tokens = 3, output_tokens = 4, total_tokens = 7\<rparr>,
       a_stdout = [JStr ''done''],
       a_stderr = [LlmInput 1 first_history,
          LlmReply 1 [(''role'', JStr ''assistant''), (''content'', JNull)]
            [\<lparr>tc_id = JStr ''call_1'', tc_name = JStr ''ls'', tc_arguments = JStr ''{}''\<rparr>],
          LlmInput 2 (first_history
             @ [ls_call_message, ls_result_message (''tool call failed: '' @ failure)]),
          LlmReply 2 [(''role'', JStr ''assistant''), (''content'', JStr ''done'')] [],
          TokenUsageLine 3 4 7]\<rparr>)"

theorem closed_channel_counterexample:
  "run_agent py_json_loads tool_then_answer fixed_prompt
      (new_client (Some 2) [reply_ok ''1'' (JArr [])]) ''hi'' False 8 =
     run_after_failure 0 ''toolserver exited''
   \<and> run_agent py_json_loads tool_then_answer fixed_prompt
      (new_client (Some 1) [reply_ok ''1'' (JArr [])]) ''hi'' False 8 =
     run_after_failure 0 ''[Errno 32] Broken pipe''"
  by (simp add: agent_eval loads_empty_object run_after_failure_def agent_steps_numeral
      del: Suc_numeral)


section \<open>Streaming and unary responses of one completion\<close>















text \<open>A line of the stream that carries a chunk.\<close>

definition data_line :: "loader \<Rightarrow> string \<Rightarrow> json \<Rightarrow> bool" where
  "data_line loads line chunk =
     (startswith (strip line) ''data:''
      \<and> strip (drop 5 (strip line)) \<noteq> ''[DONE]''
      \<and> loads (strip (drop 5 (strip line))) = Inr chunk)"


subsection \<open>The unary side\<close>







subsection \<open>The streaming side\<close>





























subsection \<open>Folding the events\<close>







subsection \<open>The two paths agree\<close>
















end
